theory Spec2Isabelle
  imports Complex_Main
begin

section \<open>The prediction service of the stock pipeline (services/predict/handler.py)\<close>

text \<open>
  The development embeds the prediction Lambda: the construction of the frame of one
  ticker from the stored items, the feature engineering, the extraction of the latest
  feature row against the trained schema, the explanation string and the loop of the
  handler over the watchlist.

  Numbers. pandas and numpy compute with IEEE-754 binary64. A value is modelled by
  \<open>fl\<close>: a finite number carried as a real, the negative zero, the two infinities, or
  NaN. The special values follow IEEE-754 (a division by zero gives an infinity or NaN
  and raises nothing, NaN compares false with everything, \<open>- 0.0\<close> is the negative
  zero). Rounding, overflow and underflow of finite results are not modelled: a finite
  result is the exact real number, and a zero that results from adding finite numbers
  is the positive zero. This is used where the tests of the program depend on the
  special values and on signs only. The explanation compares a standard deviation with
  0, a test that rounding does not preserve (ten values 0.3 have the binary64 standard
  deviation 5.85e-17): the mean and the standard deviation that pandas computes there
  are parameters of the model, not formulas.

  Outside. The table query, the artifact store, the clock, the environment variables
  and the classifier are inputs of the model: the handler is a function of them, and
  it returns its result (a response or the exception that ends the invocation)
  together with the calls it made. A date is the number of its day; the response body
  is kept as a structure (the source serialises it with \<open>json.dumps\<close>); the unused
  arguments \<open>event\<close> and \<open>context\<close> are left out.
\<close>

subsection \<open>binary64 values\<close>

datatype fl = Fin real | NegZero | PInf | NInf | NaN

fun isnan :: "fl \<Rightarrow> bool" where
  "isnan NaN = True"
| "isnan _ = False"

fun isinf :: "fl \<Rightarrow> bool" where
  "isinf PInf = True"
| "isinf NInf = True"
| "isinf _ = False"

definition isfinite :: "fl \<Rightarrow> bool" where
  "isfinite x = (\<not> isnan x \<and> \<not> isinf x)"

fun val :: "fl \<Rightarrow> real" where
  "val (Fin r) = r"
| "val _ = 0"

fun signbit :: "fl \<Rightarrow> bool" where
  "signbit (Fin r) = (r < 0)"
| "signbit NegZero = True"
| "signbit NInf = True"
| "signbit _ = False"

definition iszero :: "fl \<Rightarrow> bool" where
  "iszero x = (x = Fin 0 \<or> x = NegZero)"

definition signed_zero :: "bool \<Rightarrow> fl" where
  "signed_zero s = (if s then NegZero else Fin 0)"

definition signed_inf :: "bool \<Rightarrow> fl" where
  "signed_inf s = (if s then NInf else PInf)"

fun fneg :: "fl \<Rightarrow> fl" where
  "fneg (Fin r) = (if r = 0 then NegZero else Fin (- r))"
| "fneg NegZero = Fin 0"
| "fneg PInf = NInf"
| "fneg NInf = PInf"
| "fneg NaN = NaN"

fun fabs :: "fl \<Rightarrow> fl" where
  "fabs (Fin r) = Fin \<bar>r\<bar>"
| "fabs NegZero = Fin 0"
| "fabs PInf = PInf"
| "fabs NInf = PInf"
| "fabs NaN = NaN"

definition fadd :: "fl \<Rightarrow> fl \<Rightarrow> fl" where
  "fadd a b =
     (if isnan a \<or> isnan b then NaN
      else if isinf a then (if isinf b \<and> a \<noteq> b then NaN else a)
      else if isinf b then b
      else if a = NegZero \<and> b = NegZero then NegZero
      else Fin (val a + val b))"

definition fsub :: "fl \<Rightarrow> fl \<Rightarrow> fl" where
  "fsub a b = fadd a (fneg b)"

definition fmul :: "fl \<Rightarrow> fl \<Rightarrow> fl" where
  "fmul a b =
     (if isnan a \<or> isnan b then NaN
      else if isinf a \<or> isinf b then
        (if iszero a \<or> iszero b then NaN else signed_inf (signbit a \<noteq> signbit b))
      else if iszero a \<or> iszero b then signed_zero (signbit a \<noteq> signbit b)
      else Fin (val a * val b))"

definition fdiv :: "fl \<Rightarrow> fl \<Rightarrow> fl" where
  "fdiv a b =
     (if isnan a \<or> isnan b then NaN
      else if isinf a then (if isinf b then NaN else signed_inf (signbit a \<noteq> signbit b))
      else if isinf b then signed_zero (signbit a \<noteq> signbit b)
      else if iszero b then (if iszero a then NaN else signed_inf (signbit a \<noteq> signbit b))
      else if iszero a then signed_zero (signbit a \<noteq> signbit b)
      else Fin (val a / val b))"

text \<open>Comparisons: an infinity lies below or above every finite number, the two zeros
  are equal, and every comparison with NaN is false.\<close>

fun level :: "fl \<Rightarrow> int" where
  "level NInf = - 1"
| "level PInf = 1"
| "level _ = 0"

definition flt :: "fl \<Rightarrow> fl \<Rightarrow> bool" where
  "flt a b = (\<not> isnan a \<and> \<not> isnan b \<and>
     (level a < level b \<or> (level a = level b \<and> val a < val b)))"

definition fgt :: "fl \<Rightarrow> fl \<Rightarrow> bool" where
  "fgt a b = flt b a"

definition fge :: "fl \<Rightarrow> fl \<Rightarrow> bool" where
  "fge a b = (\<not> isnan a \<and> \<not> isnan b \<and> \<not> flt a b)"

definition feq :: "fl \<Rightarrow> fl \<Rightarrow> bool" where
  "feq a b = (\<not> isnan a \<and> \<not> isnan b \<and> \<not> flt a b \<and> \<not> flt b a)"

subsection \<open>Series operations of pandas\<close>

text \<open>A float Series is a list of values in row order. \<open>shift k\<close> moves the values
  down by \<open>k\<close> rows and fills the first \<open>k\<close> rows with NaN.\<close>

definition shift :: "nat \<Rightarrow> fl list \<Rightarrow> fl list" where
  "shift k xs = take (length xs) (replicate k NaN @ xs)"

text \<open>Forward fill: a NaN takes the last value seen before it, if there is one.\<close>

fun ffill_from :: "fl \<Rightarrow> fl list \<Rightarrow> fl list" where
  "ffill_from prev [] = []"
| "ffill_from prev (x # xs) =
     (if isnan x then prev # ffill_from prev xs else x # ffill_from x xs)"

definition ffill :: "fl list \<Rightarrow> fl list" where
  "ffill xs = ffill_from NaN xs"

text \<open>\<open>Series.pct_change(k)\<close> is \<open>data / data.shift(k) - 1\<close>. Up to pandas 2 the
  default \<open>fill_method\<close> forward-fills the series first; from pandas 3 on it does not.
  The flag \<open>pad\<close> selects between the two, so that every result below holds for both.\<close>

definition pct_change :: "bool \<Rightarrow> nat \<Rightarrow> fl list \<Rightarrow> fl list" where
  "pct_change pad k xs =
     (let data = (if pad then ffill xs else xs)
      in map2 (\<lambda>a b. fsub (fdiv a b) (Fin 1)) data (shift k data))"

definition diff :: "fl list \<Rightarrow> fl list" where
  "diff xs = map2 fsub xs (shift 1 xs)"

text \<open>\<open>s.where(cond, 0)\<close> keeps the value where the condition holds and puts 0
  elsewhere (also where the value is NaN, whose comparisons are false).\<close>

definition where_or_zero :: "(fl \<Rightarrow> bool) \<Rightarrow> fl list \<Rightarrow> fl list" where
  "where_or_zero cond xs = map (\<lambda>d. if cond d then d else Fin 0) xs"

text \<open>Mean and sample standard deviation (\<open>ddof = 1\<close>) of the finite values of a
  window, for the rolling columns. Their values go into the feature table; no test of
  the program compares them with a number.\<close>

definition mean_of :: "fl list \<Rightarrow> fl" where
  "mean_of xs = Fin (sum_list (map val xs) / real (length xs))"

definition var_of :: "fl list \<Rightarrow> real" where
  "var_of xs =
     (let m = sum_list (map val xs) / real (length xs)
      in sum_list (map (\<lambda>x. (val x - m)\<^sup>2) xs) / real (length xs - 1))"

definition std_of :: "fl list \<Rightarrow> fl" where
  "std_of xs = (if length xs \<le> 1 then NaN else Fin (sqrt (var_of xs)))"

text \<open>\<open>s.rolling(w)\<close> with the default \<open>min_periods = w\<close>: the trailing window of
  \<open>w\<close> rows that ends at row \<open>i\<close>. pandas turns infinities into NaN before the window
  functions run, and a window with fewer than \<open>w\<close> observations gives NaN: the result is
  defined exactly when the window is complete and all its values are finite.\<close>

definition rolling :: "nat \<Rightarrow> (fl list \<Rightarrow> fl) \<Rightarrow> fl list \<Rightarrow> fl list" where
  "rolling w agg xs =
     map (\<lambda>i. if i + 1 < w then NaN
              else (let win = take w (drop (i + 1 - w) xs)
                    in if list_all isfinite win then agg win else NaN))
         [0..<length xs]"

subsection \<open>The frame of one ticker\<close>

text \<open>An item of the DynamoDB table has a date (the sort key) and numeric attributes,
  each of which may be absent. Dates are counted in days since 1970-01-01; DynamoDB
  numbers are finite.\<close>

record item =
  it_date :: int
  it_open :: "real option"
  it_high :: "real option"
  it_low :: "real option"
  it_close :: "real option"
  it_volume :: "real option"
  it_vwap :: "real option"

record bar =
  b_date :: int
  b_open :: fl
  b_high :: fl
  b_low :: fl
  b_close :: fl
  b_volume :: fl
  b_vwap :: fl

text \<open>The frame that \<open>_query_ticker_history\<close> returns: \<open>pd.DataFrame()\<close>, without rows
  and columns, when \<open>bars\<close> is empty, and otherwise the columns date, open, high, low,
  close, volume, vwap and ticker.\<close>

record frame =
  bars :: "bar list"
  ticker_of :: string

definition dec :: "real option \<Rightarrow> fl" where
  "dec x = (case x of None \<Rightarrow> NaN | Some r \<Rightarrow> Fin r)"

definition to_bar :: "item \<Rightarrow> bar" where
  "to_bar it = \<lparr>b_date = it_date it, b_open = dec (it_open it), b_high = dec (it_high it),
     b_low = dec (it_low it), b_close = dec (it_close it), b_volume = dec (it_volume it),
     b_vwap = dec (it_vwap it)\<rparr>"

text \<open>\<open>items\<close> is the list \<open>Items\<close> of the response of the table query for the ticker.
  The rows are sorted by date; the dates of one ticker are distinct (the date is the
  sort key of the table), so the order does not depend on the sorting algorithm.\<close>

definition query_ticker_history :: "item list \<Rightarrow> string \<Rightarrow> frame" where
  "query_ticker_history items ticker =
     (if items = [] then \<lparr>bars = [], ticker_of = ''''\<rparr>
      else \<lparr>bars = sort_key b_date (map to_bar items), ticker_of = ticker\<rparr>)"

subsection \<open>Feature tables\<close>

text \<open>A cell of a DataFrame is a number, a string (the ticker column) or a timestamp
  (the date column). A table has a number of rows and its columns in order; in a well
  formed table every column has as many cells as the table has rows.\<close>

datatype cell = Num fl | Str string | Ts int

record table =
  nrows :: nat
  cols :: "(string \<times> cell list) list"

text \<open>The exceptions: those that pandas raises in this code, and the failures of the
  two collaborators, the artifact store and the classifier.\<close>

datatype py_error = KeyError | ValueError | TypeError | ArtifactError | ClassifierError

definition column :: "table \<Rightarrow> string \<Rightarrow> cell list option" where
  "column tb c = map_of (cols tb) c"

text \<open>\<open>df[c] = v\<close>: the column is replaced in place when it exists and appended
  otherwise.\<close>

fun assign :: "string \<Rightarrow> cell list \<Rightarrow> (string \<times> cell list) list \<Rightarrow> (string \<times> cell list) list" where
  "assign c v [] = [(c, v)]"
| "assign c v ((k, w) # cs) = (if k = c then (k, v) # cs else (k, w) # assign c v cs)"

definition assign_all :: "(string \<times> cell list) list \<Rightarrow> (string \<times> cell list) list \<Rightarrow> (string \<times> cell list) list" where
  "assign_all new cs = fold (\<lambda>(c, v). assign c v) new cs"

definition nums :: "fl list \<Rightarrow> cell list" where
  "nums xs = map Num xs"

definition WATCHLIST :: "string list" where
  "WATCHLIST = [''NVDA'', ''AAPL'', ''MSFT'', ''GOOGL'', ''AMZN'', ''TSLA'']"

text \<open>Monday is 0; 1970-01-01 was a Thursday.\<close>

definition dayofweek :: "int \<Rightarrow> fl" where
  "dayofweek d = Fin (real_of_int ((d + 3) mod 7))"

definition base_columns :: "bar list \<Rightarrow> string \<Rightarrow> (string \<times> cell list) list" where
  "base_columns bs t =
     [(''date'', map (\<lambda>b. Ts (b_date b)) bs),
      (''open'', nums (map b_open bs)),
      (''high'', nums (map b_high bs)),
      (''low'', nums (map b_low bs)),
      (''close'', nums (map b_close bs)),
      (''volume'', nums (map b_volume bs)),
      (''vwap'', nums (map b_vwap bs)),
      (''ticker'', map (\<lambda>b. Str t) bs)]"

text \<open>The RSI of the source: simple rolling means of the gains and of the losses over 14
  rows, without a guard on the division.\<close>

definition rsi_14 :: "fl list \<Rightarrow> fl list" where
  "rsi_14 close =
     (let delta = diff close;
          gain = rolling 14 mean_of (where_or_zero (\<lambda>d. fgt d (Fin 0)) delta);
          loss = map fneg (rolling 14 mean_of (where_or_zero (\<lambda>d. flt d (Fin 0)) delta));
          rs = map2 fdiv gain loss
      in map (\<lambda>r. fsub (Fin 100) (fdiv (Fin 100) (fadd (Fin 1) r))) rs)"

text \<open>The columns that \<open>add_features_lightweight\<close> assigns, in the order of the source.
  A frame of \<open>_query_ticker_history\<close> with rows always has the column vwap, so
  \<open>close_to_vwap\<close> is always assigned.\<close>

definition feature_assignments :: "bool \<Rightarrow> bar list \<Rightarrow> (string \<times> cell list) list" where
  "feature_assignments pad bs =
     (let close = map b_close bs;
          volume = map b_volume bs;
          ma_5 = rolling 5 mean_of close;
          ma_20 = rolling 20 mean_of close;
          volume_ma_20 = rolling 20 mean_of volume
      in [(''return_1d'', nums (pct_change pad 1 close)),
          (''return_5d'', nums (pct_change pad 5 close)),
          (''return_10d'', nums (pct_change pad 10 close)),
          (''ma_5'', nums ma_5),
          (''ma_20'', nums ma_20),
          (''price_to_ma5'', nums (map2 fdiv close ma_5)),
          (''price_to_ma20'', nums (map2 fdiv close ma_20)),
          (''volatility_5d'', nums (rolling 5 std_of (pct_change pad 1 close))),
          (''volatility_10d'', nums (rolling 10 std_of (pct_change pad 1 close))),
          (''volume_ma_20'', nums volume_ma_20),
          (''volume_ratio'', nums (map2 fdiv volume volume_ma_20)),
          (''rsi_14'', nums (rsi_14 close)),
          (''daily_range'', nums (map (\<lambda>b. fdiv (fsub (b_high b) (b_low b)) (b_open b)) bs)),
          (''close_to_vwap'', nums (map (\<lambda>b. fdiv (b_close b) (b_vwap b)) bs)),
          (''day_of_week'', nums (map (\<lambda>b. dayofweek (b_date b)) bs))])"

text \<open>On the frame without columns \<open>df.sort_values("date")\<close> raises KeyError.\<close>

definition add_features_lightweight :: "bool \<Rightarrow> frame \<Rightarrow> py_error + table" where
  "add_features_lightweight pad df =
     (if bars df = [] then Inl KeyError
      else (let bs = sort_key b_date (bars df)
            in Inr \<lparr>nrows = length bs,
                    cols = assign_all (feature_assignments pad bs) (base_columns bs (ticker_of df))\<rparr>))"

text \<open>\<open>add_ticker_onehots\<close> reads the column ticker (KeyError when the frame has
  none) and assigns one indicator column per watchlist ticker.\<close>

definition add_ticker_onehots :: "table \<Rightarrow> py_error + table" where
  "add_ticker_onehots df =
     (case column df ''ticker'' of
        None \<Rightarrow> Inl KeyError
      | Some tk \<Rightarrow>
          Inr (df\<lparr>cols := assign_all
                (map (\<lambda>t. (''ticker_'' @ t, map (\<lambda>c. Num (Fin (if c = Str t then 1 else 0))) tk)) WATCHLIST)
                (cols df)\<rparr>))"

subsection \<open>The latest feature row\<close>

text \<open>\<open>_prep_latest_features\<close> builds the feature table, takes its last row, puts NaN
  for every schema column that the table does not have and selects the schema columns
  in schema order. The feature table has a row whenever it exists (the frame without
  rows has raised KeyError before), so \<open>X\<close> is a single row.\<close>

definition latest_row :: "table \<Rightarrow> string list \<Rightarrow> cell list" where
  "latest_row df_feat feature_cols =
     map (\<lambda>c. case column df_feat c of None \<Rightarrow> Num NaN | Some col \<Rightarrow> last col) feature_cols"

definition prep_latest_features :: "bool \<Rightarrow> frame \<Rightarrow> string list \<Rightarrow> py_error + cell list \<times> table" where
  "prep_latest_features pad df feature_cols =
     (case add_features_lightweight pad df of
        Inl e \<Rightarrow> Inl e
      | Inr df1 \<Rightarrow>
          (case add_ticker_onehots df1 of
             Inl e \<Rightarrow> Inl e
           | Inr df_feat \<Rightarrow> Inr (latest_row df_feat feature_cols, df_feat)))"

text \<open>\<open>isna\<close> of pandas: NaN is missing; an infinity, a string and a timestamp are not.
  \<open>has_missing\<close> is \<open>X_latest.isna().any(axis=1).iloc[0]\<close>.\<close>

fun isna :: "cell \<Rightarrow> bool" where
  "isna (Num x) = isnan x"
| "isna _ = False"

definition has_missing :: "cell list \<Rightarrow> bool" where
  "has_missing X = list_ex isna X"

subsection \<open>The explanation string\<close>

text \<open>The classifier is loaded from the artifact store: its probability estimation
  (the entry \<open>[0, 1]\<close> of the result, or the exception that the call raises) and its
  attribute \<open>feature_importances_\<close>, which may be absent.\<close>

record model =
  predict_proba :: "cell list \<Rightarrow> py_error + fl"
  feature_importances :: "fl list option"

definition FRIENDLY :: "(string \<times> string) list" where
  "FRIENDLY =
     [(''return_1d'', ''short-term momentum''),
      (''return_5d'', ''5-day momentum''),
      (''return_10d'', ''10-day momentum''),
      (''price_to_ma5'', ''price vs 5-day average''),
      (''price_to_ma20'', ''price vs 20-day average''),
      (''volatility_5d'', ''recent volatility''),
      (''volatility_10d'', ''10-day volatility''),
      (''daily_range'', ''intraday price range''),
      (''volume_ratio'', ''unusual trading volume''),
      (''rsi_14'', ''RSI level''),
      (''close_to_vwap'', ''close vs VWAP''),
      (''day_of_week'', ''day-of-week pattern'')]"

definition RAW :: "string list" where
  "RAW = [''open'', ''high'', ''low'', ''close'', ''volume'', ''vwap'']"

definition FALLBACK :: string where
  "FALLBACK = ''Based on recent price and volume patterns.''"

text \<open>\<open>astype(float)\<close>: a number stays; the ticker symbol is not the text of a number
  (ValueError) and a timestamp does not convert (TypeError).\<close>

fun to_float :: "cell \<Rightarrow> py_error + fl" where
  "to_float (Num x) = Inr x"
| "to_float (Str s) = Inl ValueError"
| "to_float (Ts d) = Inl TypeError"

fun astype_float :: "cell list \<Rightarrow> py_error + fl list" where
  "astype_float [] = Inr []"
| "astype_float (c # cs) =
     (case to_float c of
        Inl e \<Rightarrow> Inl e
      | Inr x \<Rightarrow> (case astype_float cs of Inl e \<Rightarrow> Inl e | Inr xs \<Rightarrow> Inr (x # xs)))"

definition inf_to_nan :: "fl \<Rightarrow> fl" where
  "inf_to_nan x = (if isinf x then NaN else x)"

text \<open>\<open>Series.mean()\<close> and \<open>Series.std()\<close> as pandas computes them in binary64 on the
  values that are not NaN. They are parameters: the source tests \<open>sd == 0\<close>, and whether
  the computed standard deviation of a column is exactly 0 is not decided by the exact
  formula. The mean of finite values is a finite number (overflow is not modelled); the
  standard deviation may be NaN, as it is for a single value.\<close>

record stats =
  series_mean :: "fl list \<Rightarrow> real"
  series_std :: "fl list \<Rightarrow> fl"

definition weight :: "fl list \<Rightarrow> nat \<Rightarrow> fl" where
  "weight importances i = (if i < length importances then importances ! i else Fin 0)"

text \<open>One round of the loop over \<open>enumerate(feature_cols)\<close>: \<open>None\<close> is \<open>continue\<close>,
  otherwise the triple that is appended to \<open>scores\<close>. The replacement of the infinities
  leaves strings and timestamps as they are, so the conversion to float fails after it
  exactly when it fails on the column itself. \<open>mean\<close> and \<open>std\<close> skip NaN; \<open>last[c]\<close> is
  the value of the table, before the replacement.\<close>

definition score_column :: "stats \<Rightarrow> fl list \<Rightarrow> table \<Rightarrow> nat \<Rightarrow> string \<Rightarrow> py_error + (fl \<times> string \<times> fl) option" where
  "score_column st importances df_feat i c =
     (if take 7 c = ''ticker_'' then Inr None
      else if c \<in> set RAW then Inr None
      else case column df_feat c of
        None \<Rightarrow> Inr None
      | Some col \<Rightarrow>
          (case astype_float col of
             Inl e \<Rightarrow> Inl e
           | Inr xs \<Rightarrow>
               (let series = map inf_to_nan xs
                in if list_all isnan series then Inr None
                   else (let obs = filter (\<lambda>x. \<not> isnan x) series;
                             mu = Fin (series_mean st obs);
                             sd = series_std st obs
                         in if feq sd (Fin 0) \<or> \<not> isfinite sd then Inr None
                            else (let z = (if isfinite (last xs) then fdiv (fsub (last xs) mu) sd
                                           else Fin 0);
                                      imp = weight importances i
                                  in Inr (Some (fmul (fabs z) imp, c, z)))))))"

fun collect_scores :: "stats \<Rightarrow> fl list \<Rightarrow> table \<Rightarrow> nat \<Rightarrow> string list \<Rightarrow> (fl \<times> string \<times> fl) list
    \<Rightarrow> py_error + (fl \<times> string \<times> fl) list" where
  "collect_scores st importances df_feat i [] scores = Inr scores"
| "collect_scores st importances df_feat i (c # cs) scores =
     (case score_column st importances df_feat i c of
        Inl e \<Rightarrow> Inl e
      | Inr None \<Rightarrow> collect_scores st importances df_feat (Suc i) cs scores
      | Inr (Some s) \<Rightarrow> collect_scores st importances df_feat (Suc i) cs (scores @ [s]))"

text \<open>\<open>scores.sort(reverse=True, key=...)\<close>: a stable sort by descending key. An entry
  goes in front of the entries after it whose key is not greater, so entries with equal
  keys keep their order. (With a NaN among the keys the result of Python's sort depends
  on its merge order; the ranking results below assume keys that are numbers.)\<close>

fun insert_desc :: "fl \<times> string \<times> fl \<Rightarrow> (fl \<times> string \<times> fl) list \<Rightarrow> (fl \<times> string \<times> fl) list" where
  "insert_desc x [] = [x]"
| "insert_desc x (y # ys) = (if flt (fst x) (fst y) then y # insert_desc x ys else x # y # ys)"

definition sort_desc :: "(fl \<times> string \<times> fl) list \<Rightarrow> (fl \<times> string \<times> fl) list" where
  "sort_desc xs = foldr insert_desc xs []"

definition friendly :: "string \<Rightarrow> string" where
  "friendly c = (case map_of FRIENDLY c of None \<Rightarrow> c | Some l \<Rightarrow> l)"

definition phrase :: "fl \<times> string \<times> fl \<Rightarrow> string" where
  "phrase s = (case s of (_, c, z) \<Rightarrow> (if fge z (Fin 0) then ''high'' else ''low'') @ '' '' @ friendly c)"

definition why_string :: "stats \<Rightarrow> model \<Rightarrow> string list \<Rightarrow> table \<Rightarrow> py_error + string" where
  "why_string st m feature_cols df_feat =
     (case feature_importances m of
        None \<Rightarrow> Inr FALLBACK
      | Some importances \<Rightarrow>
          if nrows df_feat < 10 then Inr FALLBACK
          else (case collect_scores st importances df_feat 0 feature_cols [] of
                  Inl e \<Rightarrow> Inl e
                | Inr scores \<Rightarrow>
                    if scores = [] then Inr FALLBACK
                    else (let phrases = map phrase (take 2 (sort_desc scores))
                          in if length phrases = 1
                             then Inr (''Driven mainly by '' @ phrases ! 0 @ ''.'')
                             else Inr (''Driven mainly by '' @ phrases ! 0 @ '' and '' @ phrases ! 1 @ ''.''))))"

subsection \<open>The handler\<close>

record prediction =
  ticker :: string
  pred_up :: "bool option"
  prob_up :: "fl option"
  why :: string

record body =
  asof :: string
  predictions :: "prediction list"

record response =
  statusCode :: nat
  headers :: "(string \<times> string) list"
  body :: body

text \<open>What one invocation reads from outside: the artifacts (or the exception of
  \<open>_load_model_and_features\<close>), the items that the table query returns for a ticker and
  a start date, the clock, the environment variables and the pandas in use.\<close>

record env =
  artifacts :: "py_error + model \<times> string list"
  table_query :: "string \<Rightarrow> int \<Rightarrow> item list"
  today :: int
  utcnow :: string
  LOOKBACK_DAYS :: int
  MIN_HISTORY_DAYS :: int
  fill_pad :: bool
  series_stats :: stats

text \<open>The calls an invocation makes, in order: the feature preparation, the
  classifier's probability estimation with its argument, and the explanation.\<close>

datatype call = Prep string | PredictProba string "cell list" | Why string

definition null_prediction :: "string \<Rightarrow> string \<Rightarrow> prediction" where
  "null_prediction t reason = \<lparr>ticker = t, pred_up = None, prob_up = None, why = reason\<rparr>"

text \<open>The body of the loop for one ticker: the prediction that is appended, or the
  exception that ends the invocation, with the calls made.\<close>

definition predict_ticker :: "env \<Rightarrow> model \<Rightarrow> string list \<Rightarrow> int \<Rightarrow> string \<Rightarrow> (py_error + prediction) \<times> call list" where
  "predict_ticker e m feature_cols start t =
     (let df = query_ticker_history (table_query e t start) t
      in if bars df = [] \<or> int (length (bars df)) < MIN_HISTORY_DAYS e
         then (Inr (null_prediction t ''Not enough recent history yet.''), [])
         else (case prep_latest_features (fill_pad e) df feature_cols of
                 Inl err \<Rightarrow> (Inl err, [Prep t])
               | Inr (X_latest, df_feat) \<Rightarrow>
                   if has_missing X_latest
                   then (Inr (null_prediction t ''Missing feature values for today.''), [Prep t])
                   else (case predict_proba m X_latest of
                           Inl err \<Rightarrow> (Inl err, [Prep t, PredictProba t X_latest])
                         | Inr p \<Rightarrow>
                             (case why_string (series_stats e) m feature_cols df_feat of
                                Inl err \<Rightarrow> (Inl err, [Prep t, PredictProba t X_latest, Why t])
                              | Inr w \<Rightarrow>
                                  (Inr \<lparr>ticker = t, pred_up = Some (fge p (Fin (1 / 2))),
                                        prob_up = Some p, why = w\<rparr>,
                                   [Prep t, PredictProba t X_latest, Why t])))))"

fun predict_watchlist :: "env \<Rightarrow> model \<Rightarrow> string list \<Rightarrow> int \<Rightarrow> string list \<Rightarrow> prediction list
    \<Rightarrow> call list \<Rightarrow> (py_error + prediction list) \<times> call list" where
  "predict_watchlist e m feature_cols start [] preds calls = (Inr preds, calls)"
| "predict_watchlist e m feature_cols start (t # ts) preds calls =
     (case predict_ticker e m feature_cols start t of
        (Inl err, cs) \<Rightarrow> (Inl err, calls @ cs)
      | (Inr p, cs) \<Rightarrow> predict_watchlist e m feature_cols start ts (preds @ [p]) (calls @ cs))"

definition lambda_handler :: "env \<Rightarrow> (py_error + response) \<times> call list" where
  "lambda_handler e =
     (case artifacts e of
        Inl err \<Rightarrow> (Inl err, [])
      | Inr (m, feature_cols) \<Rightarrow>
          (let start = today e - LOOKBACK_DAYS e
           in case predict_watchlist e m feature_cols start WATCHLIST [] [] of
                (Inl err, calls) \<Rightarrow> (Inl err, calls)
              | (Inr preds, calls) \<Rightarrow>
                  (Inr \<lparr>statusCode = 200,
                        headers = [(''Content-Type'', ''application/json''),
                                   (''Access-Control-Allow-Origin'', ''*'')],
                        body = \<lparr>asof = utcnow e, predictions = preds\<rparr>\<rparr>,
                   calls)))"

subsection \<open>Notions of the statements\<close>

text \<open>The last \<open>n\<close> rows of a series, and the finite values that are positive or
  negative.\<close>

definition trailing :: "nat \<Rightarrow> 'a list \<Rightarrow> 'a list" where
  "trailing n xs = drop (length xs - n) xs"

fun is_pos :: "fl \<Rightarrow> bool" where
  "is_pos (Fin r) = (0 < r)"
| "is_pos _ = False"

fun is_neg :: "fl \<Rightarrow> bool" where
  "is_neg (Fin r) = (r < 0)"
| "is_neg _ = False"

text \<open>What the claim about the flag speaks of: the value of a schema column in the
  last row of the feature table, and whether it is a finite number.\<close>

definition latest_value :: "table \<Rightarrow> string \<Rightarrow> cell option" where
  "latest_value tb c = (case column tb c of None \<Rightarrow> None | Some col \<Rightarrow> Some (last col))"

fun finite_cell :: "cell \<Rightarrow> bool" where
  "finite_cell (Num x) = isfinite x"
| "finite_cell _ = False"

definition latest_finite :: "table \<Rightarrow> string \<Rightarrow> bool" where
  "latest_finite tb c = (case latest_value tb c of None \<Rightarrow> False | Some v \<Rightarrow> finite_cell v)"

text \<open>The flag that the handler computes from the result of \<open>_prep_latest_features\<close>,
  and the statement "every schema column is finite in the last row" for the same
  table.\<close>

definition latest_has_missing :: "bool \<Rightarrow> frame \<Rightarrow> string list \<Rightarrow> py_error + bool" where
  "latest_has_missing p df feature_cols =
     (case prep_latest_features p df feature_cols of
        Inl e \<Rightarrow> Inl e
      | Inr (X, df_feat) \<Rightarrow> Inr (has_missing X))"

definition latest_all_finite :: "bool \<Rightarrow> frame \<Rightarrow> string list \<Rightarrow> py_error + bool" where
  "latest_all_finite p df feature_cols =
     (case prep_latest_features p df feature_cols of
        Inl e \<Rightarrow> Inl e
      | Inr (X, df_feat) \<Rightarrow> Inr (list_all (latest_finite df_feat) feature_cols))"

text \<open>The columns of the table that \<open>_prep_latest_features\<close> builds: those of the
  frame, the features and the indicator columns.\<close>

definition onehot_columns :: "string \<Rightarrow> nat \<Rightarrow> (string \<times> cell list) list" where
  "onehot_columns t n =
     map (\<lambda>w. (''ticker_'' @ w, replicate n (Num (Fin (if t = w then 1 else 0))))) WATCHLIST"

definition prepared_columns :: "bool \<Rightarrow> bar list \<Rightarrow> string \<Rightarrow> (string \<times> cell list) list" where
  "prepared_columns p bs t =
     base_columns bs t @ feature_assignments p bs @ onehot_columns t (length bs)"

text \<open>The columns that the explanation looks at (neither a ticker indicator nor a raw
  OHLCV field), and the columns among them that give no score: absent from the table,
  without any finite value, or with a standard deviation of its finite values that is
  zero or not finite.\<close>

definition candidate :: "string \<Rightarrow> bool" where
  "candidate c = (take 7 c \<noteq> ''ticker_'' \<and> c \<notin> set RAW)"

definition degenerate :: "stats \<Rightarrow> fl list \<Rightarrow> bool" where
  "degenerate st xs =
     (list_all (\<lambda>x. \<not> isfinite x) xs \<or>
      feq (series_std st (filter isfinite xs)) (Fin 0) \<or>
      \<not> isfinite (series_std st (filter isfinite xs)))"

definition no_usable_score :: "stats \<Rightarrow> table \<Rightarrow> string \<Rightarrow> bool" where
  "no_usable_score st tb c =
     (case column tb c of
        None \<Rightarrow> True
      | Some col \<Rightarrow> (case astype_float col of Inl e \<Rightarrow> False | Inr xs \<Rightarrow> degenerate st xs))"

text \<open>A column of numbers, or no column: the conversion to float does not raise.\<close>

definition numeric_column :: "table \<Rightarrow> string \<Rightarrow> bool" where
  "numeric_column tb c =
     (case column tb c of
        None \<Rightarrow> True
      | Some col \<Rightarrow> (case astype_float col of Inl e \<Rightarrow> False | Inr xs \<Rightarrow> True))"

subsection \<open>The rationale as the specification words it\<close>

text \<open>A column is considered when it
  is neither a ticker indicator nor a raw OHLCV field and gives a score. Its z is the
  distance of the latest value from the mean of the column's finite values, in
  standard deviations, and 0 when the latest value is not finite; its score is
  \<open>|z|\<close> times the importance weight at the column's index in the schema. The
  considered columns are ranked by descending score (\<open>sort_key\<close> is the stable sort of
  the library), the first two are rendered as "high" or "low" with the friendly label,
  and joined into the sentence.\<close>

definition floats :: "cell list \<Rightarrow> fl list" where
  "floats col = map (\<lambda>v. case v of Num x \<Rightarrow> x | _ \<Rightarrow> NaN) col"

definition z_score :: "stats \<Rightarrow> table \<Rightarrow> string \<Rightarrow> fl" where
  "z_score st tb c =
     (case column tb c of
        None \<Rightarrow> Fin 0
      | Some col \<Rightarrow>
          (let xs = floats col; hist = filter isfinite xs
           in if isfinite (last xs)
              then fdiv (fsub (last xs) (Fin (series_mean st hist))) (series_std st hist)
              else Fin 0))"

definition considered :: "stats \<Rightarrow> table \<Rightarrow> string \<Rightarrow> bool" where
  "considered st tb c = (candidate c \<and> \<not> no_usable_score st tb c)"





subsection \<open>Inputs for the examples\<close>

text \<open>Frames: five bars, fifteen bars with rising and with falling closes, and a bar
  with open 0 (the ingest code itself skips such a row when it picks the biggest
  mover).\<close>

definition example_bar :: "int \<Rightarrow> real \<Rightarrow> bar" where
  "example_bar d c = \<lparr>b_date = d, b_open = Fin c, b_high = Fin c, b_low = Fin c,
     b_close = Fin c, b_volume = Fin 1000, b_vwap = Fin c\<rparr>"

definition five_bars :: frame where
  "five_bars = \<lparr>bars = [example_bar 1 10, example_bar 2 11, example_bar 3 12,
     example_bar 4 13, example_bar 5 14], ticker_of = ''AAPL''\<rparr>"

definition rising :: frame where
  "rising = \<lparr>bars = map (\<lambda>i. example_bar i (real_of_int (100 + i))) [1..15], ticker_of = ''AAPL''\<rparr>"

definition falling :: frame where
  "falling = \<lparr>bars = map (\<lambda>i. example_bar i (real_of_int (100 - i))) [1..15], ticker_of = ''AAPL''\<rparr>"

definition zero_open :: frame where
  "zero_open = \<lparr>bars = [\<lparr>b_date = 1, b_open = Fin 0, b_high = Fin 2, b_low = Fin 1,
     b_close = Fin 1, b_volume = Fin 1000, b_vwap = Fin 1\<rparr>], ticker_of = ''AAPL''\<rparr>"

text \<open>Feature tables of ten rows: one whose columns give no score (\<open>close\<close> is a raw
  field, \<open>return_1d\<close> is 1 where it is defined), and one with two columns that vary,
  each with mean 0 and standard deviation 2. The values are small integers, and so are
  their sums and sums of squares: on these tables the binary64 statistics are the exact
  ones, which \<open>exact_stats\<close> gives. A classifier that answers 0.7.\<close>

definition exact_stats :: stats where
  "exact_stats = \<lparr>series_mean = (\<lambda>xs. sum_list (map val xs) / real (length xs)),
                  series_std = std_of\<rparr>"


definition momentum_table :: table where
  "momentum_table = \<lparr>nrows = 10, cols =
     [(''return_1d'', nums [Fin (- 2), Fin (- 2), Fin (- 2), Fin (- 2), Fin 0, Fin 1, Fin 1, Fin 1, Fin 1, Fin 4]),
      (''rsi_14'', nums [Fin 4, Fin 3, Fin 1, Fin (- 2), Fin (- 1), Fin (- 1), Fin (- 1), Fin (- 1), Fin (- 1), Fin (- 1)])]\<rparr>"

definition constant_classifier :: "fl list option \<Rightarrow> model" where
  "constant_classifier imps = \<lparr>predict_proba = (\<lambda>X. Inr (Fin (7 / 10))), feature_importances = imps\<rparr>"

text \<open>An invocation for the examples: one stored item for AAPL, none for the other
  tickers, a minimum history of one day, and a schema of two columns.\<close>

definition one_item :: item where
  "one_item = \<lparr>it_date = 19000, it_open = Some 10, it_high = Some 11, it_low = Some 9,
     it_close = Some 10, it_volume = Some 1000, it_vwap = Some 10\<rparr>"

definition demo_env :: "int \<Rightarrow> string \<Rightarrow> env" where
  "demo_env day stamp =
     \<lparr>artifacts = Inr (constant_classifier None, [''close'', ''ticker_AAPL'']),
      table_query = (\<lambda>t start. if t = ''AAPL'' then [one_item] else []),
      today = day, utcnow = stamp, LOOKBACK_DAYS = 60, MIN_HISTORY_DAYS = 1, fill_pad = False,
      series_stats = exact_stats\<rparr>"

text \<open>An invocation with the default minimum of 25 days and 24 stored items for AAPL.\<close>

definition short_env :: env where
  "short_env =
     \<lparr>artifacts = Inr (constant_classifier None, [''close'', ''ticker_AAPL'']),
      table_query = (\<lambda>t start. if t = ''AAPL'' then map (\<lambda>d. one_item\<lparr>it_date := d\<rparr>) [1..24] else []),
      today = 20000, utcnow = ''2024-10-04T00:00:00Z'', LOOKBACK_DAYS = 60,
      MIN_HISTORY_DAYS = 25, fill_pad = False, series_stats = exact_stats\<rparr>"

text \<open>A column of ten values 0.3 (the binary64 number nearest to it), and the
  statistics that binary64 gives for it: the sum of the ten values rounds below 3, so
  the mean is 0.29999999999999993 and the standard deviation 5.85e-17, not 0.\<close>

definition three_tenths :: real where
  "three_tenths = 5404319552844595 / 18014398509481984"

definition constant_table :: table where
  "constant_table = \<lparr>nrows = 10, cols =
     [(''daily_range'', nums [Fin three_tenths, Fin three_tenths, Fin three_tenths,
        Fin three_tenths, Fin three_tenths, Fin three_tenths, Fin three_tenths,
        Fin three_tenths, Fin three_tenths, Fin three_tenths])]\<rparr>"

definition rounded_stats :: stats where
  "rounded_stats =
     \<lparr>series_mean = (\<lambda>xs. 2702159776422297 / 9007199254740992),
      series_std = (\<lambda>xs. Fin (2373605415329393 / 40564819207303340847894502572032))\<rparr>"

text \<open>A classifier that validates its input as the random forest of the training
  script does: scikit-learn raises ValueError on a vector with an entry that is not a
  finite number. An invocation with the default minimum of 25 days and the schema
  \<open>daily_range\<close>: 25 stored items for every ticker, the last item of NVDA with open 0.\<close>

definition validating_classifier :: model where
  "validating_classifier =
     \<lparr>predict_proba = (\<lambda>X. if list_all finite_cell X then Inr (Fin (7 / 10)) else Inl ValueError),
      feature_importances = Some [Fin 1]\<rparr>"

definition zero_open_items :: "item list" where
  "zero_open_items =
     map (\<lambda>d. one_item\<lparr>it_date := d\<rparr>) [1..24] @ [one_item\<lparr>it_date := 25, it_open := Some 0\<rparr>]"

definition zero_open_env :: env where
  "zero_open_env =
     \<lparr>artifacts = Inr (validating_classifier, [''daily_range'']),
      table_query = (\<lambda>t start. if t = ''NVDA'' then zero_open_items
                                else map (\<lambda>d. one_item\<lparr>it_date := d\<rparr>) [1..25]),
      today = 20000, utcnow = ''2024-10-04T00:00:00Z'', LOOKBACK_DAYS = 60,
      MIN_HISTORY_DAYS = 25, fill_pad = False, series_stats = exact_stats\<rparr>"

section \<open>Properties\<close>

subsection \<open>Columns of the feature table\<close>

lemma map_of_assign: "map_of (assign c v cs) k = (if k = c then Some v else map_of cs k)"
  by (induction cs) auto

lemma assign_fresh: "c \<notin> fst ` set cs \<Longrightarrow> assign c v cs = cs @ [(c, v)]"
  by (induction cs) auto

lemma assign_all_fresh:
  "distinct (map fst new) \<Longrightarrow> fst ` set new \<inter> fst ` set cs = {} \<Longrightarrow> assign_all new cs = cs @ new"
proof (induction new arbitrary: cs)
  case Nil
  then show ?case by (simp add: assign_all_def)
next
  case (Cons p new)
  obtain c v where p: "p = (c, v)" by (cases p)
  have fresh: "c \<notin> fst ` set cs" using Cons.prems(2) p by auto
  have step: "assign_all (p # new) cs = assign_all new (cs @ [(c, v)])"
    using fresh by (simp add: assign_all_def p assign_fresh)
  have "fst ` set new \<inter> fst ` set (cs @ [(c, v)]) = {}"
    using Cons.prems p by (auto simp: image_iff)
  with Cons.IH[of "cs @ [(c, v)]"] Cons.prems(1) step p show ?case by simp
qed

lemma feature_names:
  "map fst (feature_assignments p bs) =
     [''return_1d'', ''return_5d'', ''return_10d'', ''ma_5'', ''ma_20'', ''price_to_ma5'',
      ''price_to_ma20'', ''volatility_5d'', ''volatility_10d'', ''volume_ma_20'',
      ''volume_ratio'', ''rsi_14'', ''daily_range'', ''close_to_vwap'', ''day_of_week'']"
  by (simp add: feature_assignments_def Let_def)

lemma base_names:
  "map fst (base_columns bs t) =
     [''date'', ''open'', ''high'', ''low'', ''close'', ''volume'', ''vwap'', ''ticker'']"
  by (simp add: base_columns_def)

lemma features_cols:
  "assign_all (feature_assignments p bs) (base_columns bs t) =
     base_columns bs t @ feature_assignments p bs"
proof (rule assign_all_fresh)
  show "distinct (map fst (feature_assignments p bs))"
    unfolding feature_names by simp
  have "set (map fst (feature_assignments p bs)) \<inter> set (map fst (base_columns bs t)) = {}"
    unfolding feature_names base_names by simp
  then show "fst ` set (feature_assignments p bs) \<inter> fst ` set (base_columns bs t) = {}"
    by simp
qed

lemma add_features_table:
  "bars df \<noteq> [] \<Longrightarrow>
   add_features_lightweight p df =
     Inr \<lparr>nrows = length (bars df),
          cols = base_columns (sort_key b_date (bars df)) (ticker_of df) @
                 feature_assignments p (sort_key b_date (bars df))\<rparr>"
  by (simp add: add_features_lightweight_def Let_def features_cols)

subsection \<open>Returns over a window longer than the history\<close>

lemma length_ffill_from: "length (ffill_from v xs) = length xs"
  by (induction xs arbitrary: v) auto

lemma shift_short: "length xs \<le> k \<Longrightarrow> shift k xs = replicate (length xs) NaN"
  by (simp add: shift_def)

lemma pct_of_nan:
  "map2 (\<lambda>a b. fsub (fdiv a b) (Fin 1)) xs (replicate (length xs) NaN) = replicate (length xs) NaN"
  by (induction xs) (auto simp: fdiv_def fsub_def fadd_def)

lemma pct_change_short: "length xs \<le> k \<Longrightarrow> pct_change p k xs = replicate (length xs) NaN"
  using pct_of_nan[of "ffill xs"] pct_of_nan[of xs]
  by (simp add: pct_change_def Let_def shift_short ffill_def length_ffill_from)

text \<open>
  C8. A frame with fewer than 6 bars (and at least one: the frame without rows has no
  column date and the feature builder raises on it) gives a feature table in which the
  column \<open>return_5d\<close> is NaN in every row, with either fill method of \<open>pct_change\<close>.
\<close>

theorem return_5d_undefined:
  assumes "bars df \<noteq> []" and "length (bars df) < 6"
  shows "\<exists>tb. add_features_lightweight p df = Inr tb \<and> nrows tb = length (bars df) \<and>
           column tb ''return_5d'' = Some (replicate (length (bars df)) (Num NaN))"
proof -
  let ?bs = "sort_key b_date (bars df)"
  have len: "length (map b_close ?bs) \<le> 5" using assms(2) by simp
  have "map_of (feature_assignments p ?bs) ''return_5d'' =
      Some (nums (pct_change p 5 (map b_close ?bs)))"
    by (simp add: feature_assignments_def Let_def)
  then have "map_of (base_columns ?bs (ticker_of df) @ feature_assignments p ?bs) ''return_5d''
      = Some (nums (pct_change p 5 (map b_close ?bs)))"
    by (simp add: base_columns_def)
  then show ?thesis
    using pct_change_short[OF len, of p]
    by (simp add: add_features_table[OF assms(1)] column_def nums_def)
qed

theorem return_5d_undefined_witness:
  "bars five_bars \<noteq> [] \<and> length (bars five_bars) < 6 \<and>
   (\<exists>tb. add_features_lightweight True five_bars = Inr tb \<and> nrows tb = 5 \<and>
      column tb ''return_5d'' = Some [Num NaN, Num NaN, Num NaN, Num NaN, Num NaN])"
  using return_5d_undefined[of five_bars True] by (auto simp: five_bars_def)

subsection \<open>RSI on a monotone window\<close>

lemma is_pos_iff: "is_pos d \<longleftrightarrow> (\<exists>r. d = Fin r \<and> 0 < r)"
  by (cases d) auto

lemma is_neg_iff: "is_neg d \<longleftrightarrow> (\<exists>r. d = Fin r \<and> r < 0)"
  by (cases d) auto

lemma fsub_increasing: "isfinite a \<Longrightarrow> isfinite b \<Longrightarrow> flt a b \<Longrightarrow> is_pos (fsub b a)"
  by (cases a; cases b) (auto simp: isfinite_def flt_def fsub_def fadd_def is_pos_iff)

lemma fsub_decreasing: "isfinite a \<Longrightarrow> isfinite b \<Longrightarrow> fgt a b \<Longrightarrow> is_neg (fsub b a)"
  by (cases a; cases b) (auto simp: isfinite_def flt_def fgt_def fsub_def fadd_def is_neg_iff)

lemma deltas_increasing:
  "successively flt T \<Longrightarrow> list_all isfinite T \<Longrightarrow> list_all is_pos (map2 fsub (tl T) T)"
proof (induction T rule: induct_list012)
  case (3 x y zs)
  then show ?case using fsub_increasing[of x y] by simp
qed simp_all

lemma deltas_decreasing:
  "successively fgt T \<Longrightarrow> list_all isfinite T \<Longrightarrow> list_all is_neg (map2 fsub (tl T) T)"
proof (induction T rule: induct_list012)
  case (3 x y zs)
  then show ?case using fsub_decreasing[of x y] by simp
qed simp_all

lemma rolling_last:
  assumes "0 < w" and "w \<le> length xs"
  shows "last (rolling w agg xs) =
    (if list_all isfinite (trailing w xs) then agg (trailing w xs) else NaN)"
proof -
  let ?n = "length xs"
  have n: "0 < ?n" using assms by linarith
  then have upt: "[0..<?n] = [0..<?n - 1] @ [?n - 1]"
    by (metis Suc_pred' upt_Suc_append zero_le)
  have g: "last (map g [0..<?n]) = g (?n - 1)" for g :: "nat \<Rightarrow> fl"
    by (subst upt) simp
  have e: "?n - 1 + 1 = ?n" using n by simp
  have win: "take w (drop (?n - w) xs) = trailing w xs"
    using assms by (simp add: trailing_def)
  show ?thesis
    unfolding rolling_def g e win Let_def using assms by simp
qed

lemma length_rolling: "length (rolling w agg xs) = length xs"
  by (simp add: rolling_def)

lemma length_where: "length (where_or_zero c xs) = length xs"
  by (simp add: where_or_zero_def)

lemma length_shift: "length (shift k xs) = length xs"
  by (simp add: shift_def)

lemma length_diff: "length (diff xs) = length xs"
  by (simp add: diff_def length_shift)

lemma trailing_diff:
  assumes "Suc w \<le> length cs"
  shows "trailing w (diff cs) = map2 fsub (tl (trailing (Suc w) cs)) (trailing (Suc w) cs)"
proof -
  let ?n = "length cs"
  let ?T = "drop (?n - Suc w) cs"
  have k: "?n - w = Suc (?n - Suc w)" using assms by simp
  have a: "drop (?n - w) cs = tl ?T" by (simp add: k drop_Suc tl_drop)
  have b: "drop (?n - w) (shift (Suc 0) cs) = take w ?T"
    using assms by (simp add: shift_def drop_take k)
  have lt: "length (tl ?T) = w" using assms by simp
  have "zip (tl ?T) (take w ?T) = take w (zip (tl ?T) ?T)"
    using lt by (simp add: take_zip)
  also have "\<dots> = zip (tl ?T) ?T" using lt by simp
  finally have z: "zip (tl ?T) (take w ?T) = zip (tl ?T) ?T" .
  show ?thesis
    by (simp add: trailing_def diff_def length_shift drop_map drop_zip a b z del: length_tl length_drop)
qed

lemma trailing_where: "trailing w (where_or_zero c xs) = where_or_zero c (trailing w xs)"
  by (simp add: trailing_def where_or_zero_def drop_map)

lemma is_pos_facts: "is_pos d \<Longrightarrow> fgt d (Fin 0) \<and> \<not> flt d (Fin 0) \<and> isfinite d \<and> 0 < val d"
  by (auto simp: is_pos_iff fgt_def flt_def isfinite_def)

lemma is_neg_facts: "is_neg d \<Longrightarrow> \<not> fgt d (Fin 0) \<and> flt d (Fin 0) \<and> isfinite d \<and> val d < 0"
  by (auto simp: is_neg_iff fgt_def flt_def isfinite_def)

lemma where_keep: "list_all c D \<Longrightarrow> where_or_zero c D = D"
  by (induction D) (auto simp: where_or_zero_def)

lemma where_drop: "list_all (\<lambda>d. \<not> c d) D \<Longrightarrow> where_or_zero c D = map (\<lambda>_. Fin 0) D"
  by (induction D) (auto simp: where_or_zero_def)

lemma mean_zeros: "mean_of (map (\<lambda>_. Fin 0) D) = Fin 0"
  by (simp add: mean_of_def comp_def)

lemma sum_pos: "D \<noteq> [] \<Longrightarrow> list_all (\<lambda>d. 0 < val d) D \<Longrightarrow> 0 < sum_list (map val D)"
  by (induction D rule: list_nonempty_induct) (auto intro: add_pos_pos)

lemma sum_neg: "D \<noteq> [] \<Longrightarrow> list_all (\<lambda>d. val d < 0) D \<Longrightarrow> sum_list (map val D) < 0"
  by (induction D rule: list_nonempty_induct) (auto intro: add_neg_neg)

lemma mean_pos:
  assumes "D \<noteq> []" and "list_all is_pos D"
  shows "is_pos (mean_of D)"
proof -
  have "list_all (\<lambda>d. 0 < val d) D"
    using assms(2) by (auto simp: list_all_iff dest: is_pos_facts)
  then have "0 < sum_list (map val D)" using assms(1) by (rule sum_pos[rotated])
  moreover have "0 < real (length D)" using assms(1) by simp
  ultimately show ?thesis by (simp add: mean_of_def is_pos_iff)
qed

lemma mean_neg:
  assumes "D \<noteq> []" and "list_all is_neg D"
  shows "is_neg (mean_of D)"
proof -
  have "list_all (\<lambda>d. val d < 0) D"
    using assms(2) by (auto simp: list_all_iff dest: is_neg_facts)
  then have "sum_list (map val D) < 0" using assms(1) by (rule sum_neg[rotated])
  moreover have "0 < real (length D)" using assms(1) by simp
  ultimately show ?thesis by (simp add: mean_of_def is_neg_iff divide_neg_pos)
qed

lemma rsi_all_gain: "is_pos g \<Longrightarrow> fsub (Fin 100) (fdiv (Fin 100) (fadd (Fin 1) (fdiv g (fneg (Fin 0))))) = Fin 100"
  by (auto simp: is_pos_iff fdiv_def fadd_def fsub_def iszero_def signed_inf_def signed_zero_def)

lemma rsi_all_loss: "is_neg l \<Longrightarrow> fsub (Fin 100) (fdiv (Fin 100) (fadd (Fin 1) (fdiv (Fin 0) (fneg l)))) = Fin 0"
  by (auto simp: is_neg_iff fdiv_def fadd_def fsub_def iszero_def signed_inf_def signed_zero_def)

lemma last_map2: "length xs = length ys \<Longrightarrow> xs \<noteq> [] \<Longrightarrow> last (map2 f xs ys) = f (last xs) (last ys)"
  by (induction xs ys rule: list_induct2) (auto split: if_splits)

lemma rsi_last:
  assumes n: "15 \<le> length cs" and fin: "list_all isfinite (trailing 15 cs)"
  shows "(successively flt (trailing 15 cs) \<longrightarrow> last (rsi_14 cs) = Fin 100) \<and>
         (successively fgt (trailing 15 cs) \<longrightarrow> last (rsi_14 cs) = Fin 0)"
proof -
  let ?D = "map2 fsub (tl (trailing 15 cs)) (trailing 15 cs)"
  let ?G = "rolling 14 mean_of (where_or_zero (\<lambda>d. fgt d (Fin 0)) (diff cs))"
  let ?L = "rolling 14 mean_of (where_or_zero (\<lambda>d. flt d (Fin 0)) (diff cs))"
  have tD: "trailing 14 (diff cs) = ?D" using trailing_diff[of 14 cs] n by simp
  have lenT: "length (trailing 15 cs) = 15" using n by (simp add: trailing_def)
  have lenD: "length ?D = 14" using lenT by simp
  have Dne: "?D \<noteq> []" by (metis lenD list.size(3) zero_neq_numeral)
  have ne: "cs \<noteq> []" using n by auto
  have lastG: "\<And>c. last (rolling 14 mean_of (where_or_zero c (diff cs))) =
      (if list_all isfinite (where_or_zero c ?D) then mean_of (where_or_zero c ?D) else NaN)"
    using n by (subst rolling_last) (simp_all add: where_or_zero_def length_diff trailing_where[unfolded where_or_zero_def] tD)
  have lenG: "length ?G = length cs" and lenL: "length ?L = length cs"
    by (simp_all add: length_rolling length_where length_diff)
  have Gne: "?G \<noteq> []" and Lne: "?L \<noteq> []" using lenG lenL ne by auto
  have rs: "last (map2 fdiv ?G (map fneg ?L)) = fdiv (last ?G) (last (map fneg ?L))"
    by (rule last_map2) (simp_all add: lenG lenL Gne)
  have rsne: "map2 fdiv ?G (map fneg ?L) \<noteq> []"
    using Gne Lne by (cases ?G; cases ?L) simp_all
  have last_rsi: "last (rsi_14 cs) =
      fsub (Fin 100) (fdiv (Fin 100) (fadd (Fin 1) (fdiv (last ?G) (fneg (last ?L)))))"
    unfolding rsi_14_def Let_def
    by (subst last_map[OF rsne]) (simp only: rs last_map[OF Lne])
  have up: "last (rsi_14 cs) = Fin 100" if inc: "successively flt (trailing 15 cs)"
  proof -
    have pos: "list_all is_pos ?D" using deltas_increasing[OF inc fin] .
    have k: "where_or_zero (\<lambda>d. fgt d (Fin 0)) ?D = ?D"
      by (rule where_keep) (use pos in \<open>auto simp: list_all_iff dest: is_pos_facts\<close>)
    have z: "where_or_zero (\<lambda>d. flt d (Fin 0)) ?D = map (\<lambda>_. Fin 0) ?D"
      by (rule where_drop) (use pos in \<open>auto simp: list_all_iff dest: is_pos_facts\<close>)
    have finD: "list_all isfinite ?D" using pos by (auto simp: list_all_iff dest: is_pos_facts)
    have g: "last ?G = mean_of ?D" by (simp only: lastG k finD if_True)
    have l: "last ?L = Fin 0"
      by (simp only: lastG z mean_zeros) (simp add: list_all_iff isfinite_def)
    show ?thesis unfolding last_rsi g l using rsi_all_gain[OF mean_pos[OF Dne pos]] .
  qed
  have down: "last (rsi_14 cs) = Fin 0" if dec: "successively fgt (trailing 15 cs)"
  proof -
    have neg: "list_all is_neg ?D" using deltas_decreasing[OF dec fin] .
    have k: "where_or_zero (\<lambda>d. flt d (Fin 0)) ?D = ?D"
      by (rule where_keep) (use neg in \<open>auto simp: list_all_iff dest: is_neg_facts\<close>)
    have z: "where_or_zero (\<lambda>d. fgt d (Fin 0)) ?D = map (\<lambda>_. Fin 0) ?D"
      by (rule where_drop) (use neg in \<open>auto simp: list_all_iff dest: is_neg_facts\<close>)
    have finD: "list_all isfinite ?D" using neg by (auto simp: list_all_iff dest: is_neg_facts)
    have l: "last ?L = mean_of ?D" by (simp only: lastG k finD if_True)
    have g: "last ?G = Fin 0"
      by (simp only: lastG z mean_zeros) (simp add: list_all_iff isfinite_def)
    show ?thesis unfolding last_rsi g l using rsi_all_loss[OF mean_neg[OF Dne neg]] .
  qed
  show ?thesis using up down by blast
qed

lemma close_column:
  "bars df \<noteq> [] \<Longrightarrow> add_features_lightweight p df = Inr tb \<Longrightarrow>
   column tb ''close'' = Some (nums (map b_close (sort_key b_date (bars df))))"
  by (auto simp: add_features_table column_def base_columns_def)

lemma rsi_column:
  "bars df \<noteq> [] \<Longrightarrow> add_features_lightweight p df = Inr tb \<Longrightarrow>
   column tb ''rsi_14'' = Some (nums (rsi_14 (map b_close (sort_key b_date (bars df)))))"
  by (auto simp: add_features_table column_def base_columns_def feature_assignments_def Let_def)

lemma length_rsi_14: "length (rsi_14 cs) = length cs"
  by (simp add: rsi_14_def Let_def length_rolling length_where length_diff)

lemma nums_inject: "nums xs = nums ys \<Longrightarrow> xs = ys"
  by (simp add: nums_def inj_on_def)

text \<open>
  C2. In a feature table whose close column has at least 15 rows, the last 15 of them
  finite (a stored price is a finite number): when these closes increase strictly from
  each row to the next, \<open>rsi_14\<close> is exactly 100 in the last row, and when they
  decrease strictly it is exactly 0. The source has no guard: with all gains, the mean
  loss is 0 and its negation \<open>- 0.0\<close>, so \<open>rs\<close> is an infinity, \<open>100 / (1 + rs)\<close> a zero
  and the result 100; with all losses, \<open>rs\<close> is 0 and the result \<open>100 - 100 / 1\<close>.
\<close>

theorem rsi_14_monotone:
  assumes tb: "add_features_lightweight p df = Inr tb"
    and cs: "column tb ''close'' = Some (nums cs)"
    and n: "15 \<le> length cs"
    and fin: "list_all isfinite (trailing 15 cs)"
  shows "\<exists>rsi. column tb ''rsi_14'' = Some (nums rsi) \<and> length rsi = length cs \<and>
           (successively flt (trailing 15 cs) \<longrightarrow> last rsi = Fin 100) \<and>
           (successively fgt (trailing 15 cs) \<longrightarrow> last rsi = Fin 0)"
proof -
  have ne: "bars df \<noteq> []"
    using tb by (auto simp: add_features_lightweight_def split: if_splits)
  have "cs = map b_close (sort_key b_date (bars df))"
    using close_column[OF ne tb] cs by (simp add: nums_inject)
  then have "column tb ''rsi_14'' = Some (nums (rsi_14 cs))"
    using rsi_column[OF ne tb] by simp
  then show ?thesis using rsi_last[OF n fin] length_rsi_14[of cs] by blast
qed

lemma rising_closes: "map b_close (sort_key b_date (bars rising)) = map (\<lambda>i. Fin (real_of_int (100 + i))) [1..15]"
  by (simp add: rising_def example_bar_def upto.simps)

lemma falling_closes: "map b_close (sort_key b_date (bars falling)) = map (\<lambda>i. Fin (real_of_int (100 - i))) [1..15]"
  by (simp add: falling_def example_bar_def upto.simps)

theorem rsi_14_monotone_witness:
  "(\<exists>tb rsi. add_features_lightweight False rising = Inr tb \<and>
      column tb ''rsi_14'' = Some (nums rsi) \<and> last rsi = Fin 100) \<and>
   (\<exists>tb rsi. add_features_lightweight False falling = Inr tb \<and>
      column tb ''rsi_14'' = Some (nums rsi) \<and> last rsi = Fin 0)"
proof
  let ?up = "map (\<lambda>i. Fin (real_of_int (100 + i))) [1..15]"
  have ne: "bars rising \<noteq> []" by (simp add: rising_def upto.simps)
  then obtain tb where tb: "add_features_lightweight False rising = Inr tb"
    by (simp add: add_features_table)
  have cs: "column tb ''close'' = Some (nums ?up)"
    using close_column[OF ne tb] by (simp only: rising_closes)
  have n: "15 \<le> length ?up" by simp
  have fin: "list_all isfinite (trailing 15 ?up)"
    by (simp add: trailing_def isfinite_def upto.simps)
  have inc: "successively flt (trailing 15 ?up)"
    by (simp add: trailing_def flt_def upto.simps)
  from rsi_14_monotone[OF tb cs n fin] inc tb
  show "\<exists>tb rsi. add_features_lightweight False rising = Inr tb \<and>
      column tb ''rsi_14'' = Some (nums rsi) \<and> last rsi = Fin 100"
    by blast
next
  let ?down = "map (\<lambda>i. Fin (real_of_int (100 - i))) [1..15]"
  have ne: "bars falling \<noteq> []" by (simp add: falling_def upto.simps)
  then obtain tb where tb: "add_features_lightweight False falling = Inr tb"
    by (simp add: add_features_table)
  have cs: "column tb ''close'' = Some (nums ?down)"
    using close_column[OF ne tb] by (simp only: falling_closes)
  have n: "15 \<le> length ?down" by simp
  have fin: "list_all isfinite (trailing 15 ?down)"
    by (simp add: trailing_def isfinite_def upto.simps)
  have dec: "successively fgt (trailing 15 ?down)"
    by (simp add: trailing_def flt_def fgt_def upto.simps)
  from rsi_14_monotone[OF tb cs n fin] dec tb
  show "\<exists>tb rsi. add_features_lightweight False falling = Inr tb \<and>
      column tb ''rsi_14'' = Some (nums rsi) \<and> last rsi = Fin 0"
    by blast
qed

subsection \<open>The prepared table and the has-missing flag\<close>

lemma onehot_names:
  "map fst (onehot_columns t n) =
     [''ticker_NVDA'', ''ticker_AAPL'', ''ticker_MSFT'', ''ticker_GOOGL'', ''ticker_AMZN'', ''ticker_TSLA'']"
  by (simp add: onehot_columns_def WATCHLIST_def)

lemma onehots_fresh:
  "assign_all (onehot_columns t n) (base_columns bs t @ feature_assignments p bs) =
     base_columns bs t @ feature_assignments p bs @ onehot_columns t n"
proof -
  have d: "distinct (map fst (onehot_columns t n))"
    unfolding onehot_names by simp
  have "set (map fst (onehot_columns t n)) \<inter>
      set (map fst (base_columns bs t @ feature_assignments p bs)) = {}"
    unfolding map_append onehot_names feature_names base_names by simp
  then have "fst ` set (onehot_columns t n) \<inter>
      fst ` set (base_columns bs t @ feature_assignments p bs) = {}"
    by (simp only: set_map)
  from assign_all_fresh[OF d this] show ?thesis by simp
qed

lemma ticker_column:
  "map_of (base_columns bs t @ feature_assignments p bs) ''ticker'' = Some (map (\<lambda>b. Str t) bs)"
  by (simp add: base_columns_def)

lemma add_ticker_onehots_table:
  "add_ticker_onehots \<lparr>nrows = n, cols = base_columns bs t @ feature_assignments p bs\<rparr> =
     Inr \<lparr>nrows = n, cols = prepared_columns p bs t\<rparr>"
proof -
  have eq: "map (\<lambda>w. (''ticker_'' @ w, map (\<lambda>c. Num (Fin (if c = Str w then 1 else 0))) (map (\<lambda>b. Str t) bs))) WATCHLIST
      = onehot_columns t (length bs)"
    by (simp add: onehot_columns_def map_replicate_const comp_def)
  have c: "column \<lparr>nrows = n, cols = base_columns bs t @ feature_assignments p bs\<rparr> ''ticker'' =
      Some (map (\<lambda>b. Str t) bs)"
    by (simp add: column_def base_columns_def)
  show ?thesis
    unfolding add_ticker_onehots_def c option.case eq
    by (simp add: onehots_fresh prepared_columns_def)
qed

lemma prep_table:
  assumes "bars df \<noteq> []"
  shows "prep_latest_features p df feature_cols =
    Inr (latest_row
          \<lparr>nrows = length (bars df),
           cols = prepared_columns p (sort_key b_date (bars df)) (ticker_of df)\<rparr> feature_cols,
         \<lparr>nrows = length (bars df),
           cols = prepared_columns p (sort_key b_date (bars df)) (ticker_of df)\<rparr>)"
  using add_ticker_onehots_table[of "length (bars df)" "sort_key b_date (bars df)" "ticker_of df" p]
  by (simp add: prep_latest_features_def add_features_table[OF assms])

lemma prep_empty: "bars df = [] \<Longrightarrow> prep_latest_features p df feature_cols = Inl KeyError"
  by (simp add: prep_latest_features_def add_features_lightweight_def)

lemma prep_latest_row:
  "prep_latest_features p df feature_cols = Inr (X, tb) \<Longrightarrow> X = latest_row tb feature_cols"
  by (auto simp: prep_latest_features_def split: sum.splits)

lemma has_missing_iff:
  "has_missing (latest_row tb feature_cols) \<longleftrightarrow>
     (\<exists>c\<in>set feature_cols. column tb c = None \<or> (\<exists>col. column tb c = Some col \<and> isna (last col)))"
  by (induction feature_cols) (auto simp: has_missing_def latest_row_def split: option.splits)

lemma finite_not_isna: "finite_cell v \<Longrightarrow> \<not> isna v"
  by (cases v) (auto simp: isfinite_def)

text \<open>
  What the flag of the source is, for the aligned latest row \<open>X\<close> of a feature table:
  it is true whenever a schema column is absent from the table; it is false exactly
  when every schema column is in the table and its value in the last row is not NaN;
  and it is false when every schema column has a finite value in the last row. The
  test is \<open>isna\<close>, which an infinite value passes.
\<close>

lemma has_missing_flag:
  assumes "prep_latest_features p df feature_cols = Inr (X, tb)"
  shows "((\<exists>c\<in>set feature_cols. column tb c = None) \<longrightarrow> has_missing X) \<and>
         (\<not> has_missing X \<longleftrightarrow>
            (\<forall>c\<in>set feature_cols. \<exists>col. column tb c = Some col \<and> \<not> isna (last col))) \<and>
         (list_all (latest_finite tb) feature_cols \<longrightarrow> \<not> has_missing X)"
proof -
  have X: "X = latest_row tb feature_cols" using assms by (rule prep_latest_row)
  have a: "(\<exists>c\<in>set feature_cols. column tb c = None) \<longrightarrow> has_missing X"
    unfolding X has_missing_iff by blast
  have b: "\<not> has_missing X \<longleftrightarrow>
      (\<forall>c\<in>set feature_cols. \<exists>col. column tb c = Some col \<and> \<not> isna (last col))"
    unfolding X has_missing_iff by (auto simp: Ball_def Bex_def)
  have c: "list_all (latest_finite tb) feature_cols \<longrightarrow> \<not> has_missing X"
    unfolding b
  proof (intro impI ballI)
    fix c
    assume "list_all (latest_finite tb) feature_cols" and "c \<in> set feature_cols"
    then have "latest_finite tb c" by (simp add: list_all_iff)
    then obtain col where "column tb c = Some col" and "finite_cell (last col)"
      by (auto simp: latest_finite_def latest_value_def split: option.splits)
    then show "\<exists>col. column tb c = Some col \<and> \<not> isna (last col)"
      using finite_not_isna by blast
  qed
  show ?thesis using a b c by blast
qed

lemma zero_open_daily_range:
  "map_of (prepared_columns p (bars zero_open) t) ''daily_range'' = Some [Num PInf]"
  by (simp add: prepared_columns_def base_columns_def feature_assignments_def Let_def
      zero_open_def nums_def fsub_def fadd_def fdiv_def iszero_def signed_inf_def)

text \<open>
  C1. The has-missing flag should be true whenever a schema column is absent, and
  false if and only if every schema column has a finite value in the last row. The
  source misses the infinite values: for a bar with open 0, high 2 and low 1 and the
  schema \<open>daily_range\<close>, the latest value is \<open>(2 - 1) / 0 = inf\<close>, and the flag is
  false although the schema column has no finite value in the last row, so the vector
  goes to the classifier. The explanation of the same file does treat an infinite
  value as undefined (\<open>replace([inf, -inf], nan)\<close>, \<open>np.isfinite(last[c])\<close>); the
  guard of the handler tests \<open>isna\<close> only.
\<close>

theorem has_missing_flag_zero_open:
  "latest_has_missing False zero_open [''daily_range''] = Inr False \<and>
   latest_all_finite False zero_open [''daily_range''] = Inr False"
proof -
  have ne: "bars zero_open \<noteq> []" by (simp add: zero_open_def)
  have s: "sort_key b_date (bars zero_open) = bars zero_open" by (simp add: zero_open_def)
  show ?thesis
    unfolding latest_has_missing_def latest_all_finite_def prep_table[OF ne] s
    by (simp add: latest_row_def column_def zero_open_daily_range has_missing_def
        latest_finite_def latest_value_def isfinite_def)
qed

lemma prepared_names:
  "map fst (prepared_columns p bs t) =
     [''date'', ''open'', ''high'', ''low'', ''close'', ''volume'', ''vwap'', ''ticker'',
      ''return_1d'', ''return_5d'', ''return_10d'', ''ma_5'', ''ma_20'', ''price_to_ma5'',
      ''price_to_ma20'', ''volatility_5d'', ''volatility_10d'', ''volume_ma_20'',
      ''volume_ratio'', ''rsi_14'', ''daily_range'', ''close_to_vwap'', ''day_of_week'',
      ''ticker_NVDA'', ''ticker_AAPL'', ''ticker_MSFT'', ''ticker_GOOGL'', ''ticker_AMZN'', ''ticker_TSLA'']"
  by (simp add: prepared_columns_def base_names feature_names onehot_names)

lemma has_missing_flag_absent_column:
  "\<exists>X tb. prep_latest_features False zero_open [''daily_range'', ''sentiment''] = Inr (X, tb) \<and>
     column tb ''sentiment'' = None \<and> has_missing X"
proof -
  have ne: "bars zero_open \<noteq> []" by (simp add: zero_open_def)
  obtain X tb where r: "prep_latest_features False zero_open [''daily_range'', ''sentiment''] = Inr (X, tb)"
    and tb: "cols tb = prepared_columns False (sort_key b_date (bars zero_open)) (ticker_of zero_open)"
    using prep_table[OF ne, of False "[''daily_range'', ''sentiment'']"] by simp
  have none: "column tb ''sentiment'' = None"
    using prepared_names[of False "sort_key b_date (bars zero_open)" "ticker_of zero_open"]
    unfolding column_def tb map_of_eq_None_iff by (simp only: set_map[symmetric]) simp
  with has_missing_flag[OF r] r show ?thesis by auto
qed

subsection \<open>The explanation: fallback and totality\<close>

lemma astype_float_nums: "astype_float (nums xs) = Inr xs"
  by (induction xs) (auto simp: nums_def)

lemma astype_float_Inr: "astype_float col = Inr xs \<Longrightarrow> col = nums xs"
proof (induction col arbitrary: xs)
  case Nil
  then show ?case by (simp add: nums_def)
next
  case (Cons v col)
  then show ?case
    by (cases v) (auto simp: nums_def split: sum.splits)
qed

lemma inf_to_nan_isnan: "isnan (inf_to_nan x) \<longleftrightarrow> \<not> isfinite x"
  by (cases x) (auto simp: inf_to_nan_def isfinite_def)

lemma all_nan_series: "list_all isnan (map inf_to_nan xs) \<longleftrightarrow> list_all (\<lambda>x. \<not> isfinite x) xs"
  by (induction xs) (auto simp: inf_to_nan_isnan)

lemma observations: "filter (\<lambda>x. \<not> isnan x) (map inf_to_nan xs) = filter isfinite xs"
proof (induction xs)
  case (Cons x xs)
  then show ?case by (cases x) (auto simp: inf_to_nan_def isfinite_def)
qed simp

text \<open>The round of the loop for one column, by cases.\<close>

lemma score_column_cases:
  "score_column st imps tb i c =
     (if \<not> candidate c then Inr None
      else case column tb c of
        None \<Rightarrow> Inr None
      | Some col \<Rightarrow>
          (case astype_float col of
             Inl e \<Rightarrow> Inl e
           | Inr xs \<Rightarrow>
               if degenerate st xs then Inr None
               else (let z = (if isfinite (last xs)
                              then fdiv (fsub (last xs) (Fin (series_mean st (filter isfinite xs))))
                                     (series_std st (filter isfinite xs))
                              else Fin 0)
                     in Inr (Some (fmul (fabs z) (weight imps i), c, z)))))"
  by (auto simp: score_column_def candidate_def degenerate_def Let_def all_nan_series observations
      split: option.splits sum.splits)






subsection \<open>Importance vectors shorter than the schema\<close>

lemma z_finite:
  assumes "\<not> degenerate st xs"
  shows "isfinite (if isfinite (last xs)
                   then fdiv (fsub (last xs) (Fin (series_mean st (filter isfinite xs)))) (series_std st (filter isfinite xs))
                   else Fin 0)"
proof (cases "isfinite (last xs)")
  case False
  have "isfinite (Fin 0)" by (simp add: isfinite_def)
  then show ?thesis using False by simp
next
  case True
  obtain s where s: "series_std st (filter isfinite xs) = Fin s" "s \<noteq> 0"
    using assms
    by (cases "series_std st (filter isfinite xs)")
      (auto simp: degenerate_def isfinite_def feq_def flt_def)
  obtain mu where mu: "Fin (series_mean st (filter isfinite xs)) = Fin mu" by simp
  have "isfinite (fsub (last xs) (Fin mu))"
    using True by (cases "last xs") (auto simp: isfinite_def fsub_def fadd_def)
  then have "isfinite (fdiv (fsub (last xs) (Fin mu)) (Fin s))"
    using s(2) by (cases "fsub (last xs) (Fin mu)")
      (auto simp: isfinite_def fdiv_def iszero_def signed_zero_def)
  then show ?thesis using True s mu by simp
qed

lemma zero_weight_score: "isfinite z \<Longrightarrow> fmul (fabs z) (Fin 0) = Fin 0"
  by (cases z) (auto simp: isfinite_def fmul_def iszero_def signed_zero_def)

lemma score_column_out_of_range:
  assumes "length imps \<le> i" and "score_column st imps tb i c = Inr (Some e)"
  shows "fst e = Fin 0"
proof -
  have w: "weight imps i = Fin 0" using assms(1) by (simp add: weight_def)
  from assms(2) obtain col xs where "column tb c = Some col" "astype_float col = Inr xs"
    and nd: "\<not> degenerate st xs"
    and e: "e = (let z = (if isfinite (last xs)
                              then fdiv (fsub (last xs) (Fin (series_mean st (filter isfinite xs))))
                                     (series_std st (filter isfinite xs))
                              else Fin 0)
                     in (fmul (fabs z) (weight imps i), c, z))"
    by (auto simp: score_column_cases Let_def split: if_splits option.splits sum.splits)
  show ?thesis
    unfolding e Let_def w using zero_weight_score[OF z_finite[OF nd]] by simp
qed

lemma score_column_total:
  "candidate c \<longrightarrow> numeric_column tb c \<Longrightarrow> \<exists>r. score_column st imps tb i c = Inr r"
  by (auto simp: score_column_cases numeric_column_def Let_def split: option.splits sum.splits)

lemma collect_scores_total:
  "\<forall>c\<in>set cs. candidate c \<longrightarrow> numeric_column tb c \<Longrightarrow> \<exists>s. collect_scores st imps tb i cs acc = Inr s"
proof (induction cs arbitrary: i acc)
  case Nil
  then show ?case by simp
next
  case (Cons c cs)
  then obtain r where r: "score_column st imps tb i c = Inr r"
    using score_column_total[of c tb st imps i] by auto
  show ?case using Cons r by (cases r) auto
qed

text \<open>
  C10. When every schema column that is looked at is a numeric column of the table (or
  absent from it), the explanation returns a string for every importance vector,
  whatever its length; and a column whose index is at or beyond the end of the vector
  gets the weight 0, hence the score 0.
\<close>

theorem why_string_total:
  assumes "feature_importances m = Some importances"
    and "\<forall>c\<in>set feature_cols. candidate c \<longrightarrow> numeric_column tb c"
  shows "(\<exists>s. why_string st m feature_cols tb = Inr s) \<and>
         (\<forall>i c e. length importances \<le> i \<longrightarrow> score_column st importances tb i c = Inr (Some e) \<longrightarrow>
            weight importances i = Fin 0 \<and> fst e = Fin 0)"
proof -
  obtain sc where "collect_scores st importances tb 0 feature_cols [] = Inr sc"
    using collect_scores_total[OF assms(2)] by blast
  then have "\<exists>s. why_string st m feature_cols tb = Inr s"
    using assms(1) by (simp add: why_string_def Let_def)
  then show ?thesis
    using score_column_out_of_range by (auto simp: weight_def)
qed

lemma momentum_numeric:
  "\<forall>c\<in>set [''return_1d'', ''rsi_14'']. candidate c \<longrightarrow> numeric_column momentum_table c"
  by (simp add: numeric_column_def momentum_table_def column_def astype_float_nums)

lemma momentum_rsi_14:
  "score_column exact_stats [Fin (1 / 2)] momentum_table 1 ''rsi_14'' = Inr (Some (Fin 0, ''rsi_14'', Fin (- 1 / 2)))"
  by (simp add: score_column_cases candidate_def RAW_def momentum_table_def column_def
      astype_float_nums degenerate_def isfinite_def exact_stats_def std_of_def var_of_def feq_def flt_def
      Let_def weight_def fsub_def fadd_def fdiv_def fmul_def iszero_def signed_zero_def)

theorem why_string_total_witness:
  "(\<exists>s. why_string exact_stats (constant_classifier (Some [Fin (1 / 2)])) [''return_1d'', ''rsi_14''] momentum_table = Inr s) \<and>
   score_column exact_stats [Fin (1 / 2)] momentum_table 1 ''rsi_14'' = Inr (Some (Fin 0, ''rsi_14'', Fin (- 1 / 2)))"
proof -
  have "feature_importances (constant_classifier (Some [Fin (1 / 2)])) = Some [Fin (1 / 2)]"
    by (simp add: constant_classifier_def)
  from why_string_total[OF this momentum_numeric] momentum_rsi_14 show ?thesis by blast
qed

subsection \<open>The rationale\<close>

lemma floats_nums: "floats (nums xs) = xs"
  by (induction xs) (auto simp: floats_def nums_def)



lemma z_score_finite: "considered st tb c \<Longrightarrow> numeric_column tb c \<Longrightarrow> isfinite (z_score st tb c)"
proof -
  assume c: "considered st tb c" and n: "numeric_column tb c"
  show ?thesis
  proof (cases "column tb c")
    case None
    then show ?thesis by (simp add: z_score_def isfinite_def)
  next
    case (Some col)
    then obtain xs where xs: "astype_float col = Inr xs"
      using n by (auto simp: numeric_column_def split: sum.splits)
    have col: "col = nums xs" using xs by (rule astype_float_Inr)
    have nd: "\<not> degenerate st xs"
      using c Some xs by (simp add: considered_def no_usable_score_def)
    show ?thesis
      using z_finite[OF nd] by (simp add: z_score_def Some col floats_nums Let_def)
  qed
qed














subsection \<open>One ticker\<close>

lemma bars_query: "length (bars (query_ticker_history items t)) = length items"
  by (simp add: query_ticker_history_def)

lemma bars_query_empty: "bars (query_ticker_history items t) = [] \<longleftrightarrow> items = []"
  using bars_query[of items t] by (metis length_0_conv)

lemma predict_ticker_short:
  assumes "table_query e t start = [] \<or> int (length (table_query e t start)) < MIN_HISTORY_DAYS e"
  shows "predict_ticker e m feature_cols start t =
    (Inr \<lparr>ticker = t, pred_up = None, prob_up = None, why = ''Not enough recent history yet.''\<rparr>, [])"
  using assms
  by (auto simp: predict_ticker_def Let_def bars_query bars_query_empty null_prediction_def)

lemma predict_ticker_long:
  assumes "table_query e t start \<noteq> []" and "MIN_HISTORY_DAYS e \<le> int (length (table_query e t start))"
  shows "predict_ticker e m feature_cols start t =
    (case prep_latest_features (fill_pad e) (query_ticker_history (table_query e t start) t) feature_cols of
       Inl err \<Rightarrow> (Inl err, [Prep t])
     | Inr (X_latest, df_feat) \<Rightarrow>
         if has_missing X_latest
         then (Inr \<lparr>ticker = t, pred_up = None, prob_up = None,
                    why = ''Missing feature values for today.''\<rparr>, [Prep t])
         else (case predict_proba m X_latest of
                 Inl err \<Rightarrow> (Inl err, [Prep t, PredictProba t X_latest])
               | Inr p \<Rightarrow>
                   (case why_string (series_stats e) m feature_cols df_feat of
                      Inl err \<Rightarrow> (Inl err, [Prep t, PredictProba t X_latest, Why t])
                    | Inr w \<Rightarrow>
                        (Inr \<lparr>ticker = t, pred_up = Some (fge p (Fin (1 / 2))),
                              prob_up = Some p, why = w\<rparr>,
                         [Prep t, PredictProba t X_latest, Why t]))))"
  using assms unfolding predict_ticker_def null_prediction_def
  by (simp add: Let_def bars_query bars_query_empty)

lemma predict_ticker_calls:
  assumes "PredictProba t' X \<in> set (snd (predict_ticker e m feature_cols start t))"
  shows "t' = t \<and> table_query e t start \<noteq> [] \<and>
         MIN_HISTORY_DAYS e \<le> int (length (table_query e t start)) \<and>
         (\<exists>tb. prep_latest_features (fill_pad e) (query_ticker_history (table_query e t start) t)
                 feature_cols = Inr (X, tb)) \<and>
         \<not> has_missing X"
proof (cases "table_query e t start = [] \<or> int (length (table_query e t start)) < MIN_HISTORY_DAYS e")
  case True
  then show ?thesis using assms by (simp add: predict_ticker_short)
next
  case False
  then have l: "table_query e t start \<noteq> []"
    "MIN_HISTORY_DAYS e \<le> int (length (table_query e t start))" by auto
  show ?thesis
    using assms l unfolding predict_ticker_long[OF l]
    by (auto split: sum.splits prod.splits if_splits)
qed

lemma predict_ticker_other_calls:
  "c \<in> set (snd (predict_ticker e m feature_cols start t)) \<Longrightarrow>
   c = Prep t \<or> c = Why t \<or> (\<exists>X. c = PredictProba t X)"
  by (auto simp: predict_ticker_def Let_def split: sum.splits prod.splits if_splits)

subsection \<open>The loop over the watchlist\<close>

lemma watchlist_calls:
  "set (snd (predict_watchlist e m feature_cols start ts preds calls)) \<subseteq>
     set calls \<union> (\<Union>t\<in>set ts. set (snd (predict_ticker e m feature_cols start t)))"
proof (induction ts arbitrary: preds calls)
  case Nil
  then show ?case by simp
next
  case (Cons t ts)
  obtain r cs where p: "predict_ticker e m feature_cols start t = (r, cs)" by (cases "predict_ticker e m feature_cols start t")
  show ?case
  proof (cases r)
    case (Inl err)
    then show ?thesis using p by auto
  next
    case (Inr q)
    then show ?thesis using p Cons.IH[of "preds @ [q]" "calls @ cs"] by auto
  qed
qed

lemma watchlist_entries:
  "predict_watchlist e m feature_cols start ts preds calls = (Inr ps, cl) \<Longrightarrow>
   \<exists>qs. ps = preds @ qs \<and> list_all2 (\<lambda>t q. fst (predict_ticker e m feature_cols start t) = Inr q) ts qs"
proof (induction ts arbitrary: preds calls)
  case Nil
  then show ?case by simp
next
  case (Cons t ts)
  obtain r cs where p: "predict_ticker e m feature_cols start t = (r, cs)" by (cases "predict_ticker e m feature_cols start t")
  show ?case
  proof (cases r)
    case (Inl err)
    then show ?thesis using p Cons.prems by simp
  next
    case (Inr q)
    then have "predict_watchlist e m feature_cols start ts (preds @ [q]) (calls @ cs) = (Inr ps, cl)"
      using p Cons.prems by simp
    from Cons.IH[OF this] obtain qs where "ps = (preds @ [q]) @ qs"
      and "list_all2 (\<lambda>t q. fst (predict_ticker e m feature_cols start t) = Inr q) ts qs" by blast
    then show ?thesis using p Inr by (intro exI[of _ "q # qs"]) simp
  qed
qed

lemma watchlist_returns:
  "\<forall>t\<in>set ts. \<exists>q. fst (predict_ticker e m feature_cols start t) = Inr q \<Longrightarrow>
   \<exists>ps cl. predict_watchlist e m feature_cols start ts preds calls = (Inr ps, cl)"
proof (induction ts arbitrary: preds calls)
  case Nil
  then show ?case by simp
next
  case (Cons t ts)
  then obtain q where "fst (predict_ticker e m feature_cols start t) = Inr q" by auto
  then obtain cs where p: "predict_ticker e m feature_cols start t = (Inr q, cs)"
    by (cases "predict_ticker e m feature_cols start t") auto
  from Cons.IH[of "preds @ [q]" "calls @ cs"] Cons.prems p show ?case by simp
qed

lemma predict_ticker_ticker:
  "fst (predict_ticker e m feature_cols start t) = Inr q \<Longrightarrow> ticker q = t"
  by (auto simp: predict_ticker_def Let_def null_prediction_def split: sum.splits prod.splits if_splits)

text \<open>
  C3. In every invocation, also one that ends in an exception, a call of the
  classifier's probability estimation for a ticker comes after a fetched history that
  is not empty and has at least \<open>MIN_HISTORY_DAYS\<close> items, and its argument is the
  aligned latest feature row of that history, without a missing value.
\<close>

theorem predict_proba_guarded:
  assumes "PredictProba t X \<in> set (snd (lambda_handler e))"
  shows "\<exists>m feature_cols. artifacts e = Inr (m, feature_cols) \<and> t \<in> set WATCHLIST \<and>
           table_query e t (today e - LOOKBACK_DAYS e) \<noteq> [] \<and>
           MIN_HISTORY_DAYS e \<le> int (length (table_query e t (today e - LOOKBACK_DAYS e))) \<and>
           (\<exists>tb. prep_latest_features (fill_pad e)
                   (query_ticker_history (table_query e t (today e - LOOKBACK_DAYS e)) t)
                   feature_cols = Inr (X, tb)) \<and>
           \<not> has_missing X"
proof -
  let ?start = "today e - LOOKBACK_DAYS e"
  from assms obtain m feature_cols where a: "artifacts e = Inr (m, feature_cols)"
    by (cases "artifacts e") (auto simp: lambda_handler_def)
  have "snd (lambda_handler e) = snd (predict_watchlist e m feature_cols ?start WATCHLIST [] [])"
    by (simp add: lambda_handler_def a Let_def split: prod.splits sum.splits)
  with assms watchlist_calls[of e m feature_cols ?start WATCHLIST "[]" "[]"]
  obtain t' where t': "t' \<in> set WATCHLIST"
    and "PredictProba t X \<in> set (snd (predict_ticker e m feature_cols ?start t'))"
    by auto
  from predict_ticker_calls[OF this(2)] t' a show ?thesis by blast
qed

lemma demo_prep:
  "prep_latest_features False (query_ticker_history [one_item] ''AAPL'') [''close'', ''ticker_AAPL''] =
     Inr ([Num (Fin 10), Num (Fin 1)],
          \<lparr>nrows = 1, cols = prepared_columns False [to_bar one_item] ''AAPL''\<rparr>)"
proof -
  have q: "query_ticker_history [one_item] ''AAPL'' = \<lparr>bars = [to_bar one_item], ticker_of = ''AAPL''\<rparr>"
    by (simp add: query_ticker_history_def)
  have c: "map_of (prepared_columns False [to_bar one_item] ''AAPL'') ''close'' = Some [Num (Fin 10)]"
    by (simp add: prepared_columns_def base_columns_def nums_def to_bar_def one_item_def dec_def)
  have o: "map_of (prepared_columns False [to_bar one_item] ''AAPL'') ''ticker_AAPL'' = Some [Num (Fin 1)]"
    by (simp add: prepared_columns_def base_columns_def feature_assignments_def Let_def
        onehot_columns_def WATCHLIST_def)
  show ?thesis
    unfolding q by (subst prep_table) (simp_all add: latest_row_def column_def c o)
qed

lemma demo_AAPL:
  "predict_ticker (demo_env day stamp) (constant_classifier None) [''close'', ''ticker_AAPL''] start ''AAPL'' =
     (Inr \<lparr>ticker = ''AAPL'', pred_up = Some True, prob_up = Some (Fin (7 / 10)),
           why = ''Based on recent price and volume patterns.''\<rparr>,
      [Prep ''AAPL'', PredictProba ''AAPL'' [Num (Fin 10), Num (Fin 1)], Why ''AAPL''])"
proof -
  have w: "why_string st (constant_classifier None) cs tb = Inr ''Based on recent price and volume patterns.''" for st cs tb
    by (simp add: why_string_def constant_classifier_def FALLBACK_def)
  have p: "predict_proba (constant_classifier None) X = Inr (Fin (7 / 10))" for X
    by (simp add: constant_classifier_def)
  show ?thesis
    by (subst predict_ticker_long)
      (simp_all add: demo_env_def demo_prep has_missing_def w p fge_def flt_def)
qed

lemma demo_other:
  "t \<noteq> ''AAPL'' \<Longrightarrow>
   predict_ticker (demo_env day stamp) m cs start t =
     (Inr \<lparr>ticker = t, pred_up = None, prob_up = None, why = ''Not enough recent history yet.''\<rparr>, [])"
  by (rule predict_ticker_short) (simp add: demo_env_def)

lemma demo_run:
  "lambda_handler (demo_env day stamp) =
     (Inr \<lparr>statusCode = 200,
           headers = [(''Content-Type'', ''application/json''), (''Access-Control-Allow-Origin'', ''*'')],
           body = \<lparr>asof = stamp, predictions =
             [\<lparr>ticker = ''NVDA'', pred_up = None, prob_up = None, why = ''Not enough recent history yet.''\<rparr>,
              \<lparr>ticker = ''AAPL'', pred_up = Some True, prob_up = Some (Fin (7 / 10)),
                why = ''Based on recent price and volume patterns.''\<rparr>,
              \<lparr>ticker = ''MSFT'', pred_up = None, prob_up = None, why = ''Not enough recent history yet.''\<rparr>,
              \<lparr>ticker = ''GOOGL'', pred_up = None, prob_up = None, why = ''Not enough recent history yet.''\<rparr>,
              \<lparr>ticker = ''AMZN'', pred_up = None, prob_up = None, why = ''Not enough recent history yet.''\<rparr>,
              \<lparr>ticker = ''TSLA'', pred_up = None, prob_up = None, why = ''Not enough recent history yet.''\<rparr>]\<rparr>\<rparr>,
      [Prep ''AAPL'', PredictProba ''AAPL'' [Num (Fin 10), Num (Fin 1)], Why ''AAPL''])"
proof -
  have a: "artifacts (demo_env day stamp) = Inr (constant_classifier None, [''close'', ''ticker_AAPL''])"
    and u: "utcnow (demo_env day stamp) = stamp"
    by (simp_all add: demo_env_def)
  show ?thesis
    unfolding lambda_handler_def a WATCHLIST_def
    by (simp add: Let_def demo_AAPL demo_other u)
qed

theorem predict_proba_guarded_witness:
  "PredictProba ''AAPL'' [Num (Fin 10), Num (Fin 1)] \<in> set (snd (lambda_handler (demo_env 20000 ''2024-10-04T00:00:00Z''))) \<and>
   MIN_HISTORY_DAYS (demo_env 20000 ''2024-10-04T00:00:00Z'') \<le>
     int (length (table_query (demo_env 20000 ''2024-10-04T00:00:00Z'') ''AAPL'' 19940)) \<and>
   \<not> has_missing [Num (Fin 10), Num (Fin 1)]"
proof -
  have mem: "PredictProba ''AAPL'' [Num (Fin 10), Num (Fin 1)] \<in>
      set (snd (lambda_handler (demo_env 20000 ''2024-10-04T00:00:00Z'')))"
    by (simp add: demo_run)
  from predict_proba_guarded[OF mem] mem show ?thesis
    by (auto simp: demo_env_def)
qed

lemma handler_result:
  "artifacts e = Inr (m, feature_cols) \<Longrightarrow>
   predict_watchlist e m feature_cols (today e - LOOKBACK_DAYS e) WATCHLIST [] [] = (Inr ps, cl) \<Longrightarrow>
   lambda_handler e =
     (Inr \<lparr>statusCode = 200,
           headers = [(''Content-Type'', ''application/json''), (''Access-Control-Allow-Origin'', ''*'')],
           body = \<lparr>asof = utcnow e, predictions = ps\<rparr>\<rparr>, cl)"
  by (simp add: lambda_handler_def Let_def)

lemma handler_calls:
  "artifacts e = Inr (m, feature_cols) \<Longrightarrow>
   snd (lambda_handler e) =
     snd (predict_watchlist e m feature_cols (today e - LOOKBACK_DAYS e) WATCHLIST [] [])"
  by (simp add: lambda_handler_def Let_def split: prod.splits sum.splits)

lemma handler_predictions:
  "artifacts e = Inr (m, feature_cols) \<Longrightarrow> fst (lambda_handler e) = Inr r \<Longrightarrow>
   \<exists>cl. predict_watchlist e m feature_cols (today e - LOOKBACK_DAYS e) WATCHLIST [] [] =
     (Inr (predictions (body r)), cl)"
  by (auto simp: lambda_handler_def Let_def split: prod.splits sum.splits)

text \<open>
  C5. With \<open>MIN_HISTORY_DAYS = 25\<close>, a watchlist ticker whose fetched history has
  exactly 24 items gets the entry with null \<open>pred_up\<close> and \<open>prob_up\<close> and the reason
  "Not enough recent history yet."; the invocation makes no call for that ticker
  (neither the feature preparation, nor the classifier, nor the explanation), and a
  response that is returned contains the entry.
\<close>

theorem insufficient_history_24:
  assumes a: "artifacts e = Inr (m, feature_cols)"
    and "MIN_HISTORY_DAYS e = 25"
    and t: "t \<in> set WATCHLIST"
    and "length (table_query e t (today e - LOOKBACK_DAYS e)) = 24"
  shows "predict_ticker e m feature_cols (today e - LOOKBACK_DAYS e) t =
           (Inr \<lparr>ticker = t, pred_up = None, prob_up = None,
                 why = ''Not enough recent history yet.''\<rparr>, []) \<and>
         (\<forall>c\<in>set (snd (lambda_handler e)). c \<noteq> Prep t \<and> c \<noteq> Why t \<and> (\<forall>X. c \<noteq> PredictProba t X)) \<and>
         (\<forall>r. fst (lambda_handler e) = Inr r \<longrightarrow>
            \<lparr>ticker = t, pred_up = None, prob_up = None,
             why = ''Not enough recent history yet.''\<rparr> \<in> set (predictions (body r)))"
proof -
  let ?start = "today e - LOOKBACK_DAYS e"
  let ?null = "\<lparr>ticker = t, pred_up = None, prob_up = None, why = ''Not enough recent history yet.''\<rparr>"
  have one: "predict_ticker e m feature_cols ?start t = (Inr ?null, [])"
    by (rule predict_ticker_short) (simp add: assms)
  have calls: "c \<noteq> Prep t \<and> c \<noteq> Why t \<and> (\<forall>X. c \<noteq> PredictProba t X)"
    if c: "c \<in> set (snd (lambda_handler e))" for c
  proof -
    from c watchlist_calls[of e m feature_cols ?start WATCHLIST "[]" "[]"]
    obtain t' where t': "c \<in> set (snd (predict_ticker e m feature_cols ?start t'))"
      unfolding handler_calls[OF a] by auto
    then have "t' \<noteq> t" using one by auto
    then show ?thesis using predict_ticker_other_calls[OF t'] by auto
  qed
  have entry: "?null \<in> set (predictions (body r))" if r: "fst (lambda_handler e) = Inr r" for r
  proof -
    from handler_predictions[OF a r] obtain cl where
      "predict_watchlist e m feature_cols ?start WATCHLIST [] [] = (Inr (predictions (body r)), cl)" ..
    from watchlist_entries[OF this]
    have l: "list_all2 (\<lambda>t q. fst (predict_ticker e m feature_cols ?start t) = Inr q)
        WATCHLIST (predictions (body r))" by simp
    from t obtain i where i: "i < length WATCHLIST" "WATCHLIST ! i = t"
      by (auto simp: in_set_conv_nth)
    with l have "fst (predict_ticker e m feature_cols ?start t) = Inr (predictions (body r) ! i)"
      and "i < length (predictions (body r))"
      by (auto simp: list_all2_conv_all_nth)
    then show ?thesis using one by (auto simp: in_set_conv_nth)
  qed
  show ?thesis using one calls entry by blast
qed

lemma short_AAPL_items: "length (table_query short_env ''AAPL'' start) = 24"
  by (simp add: short_env_def)

lemma short_ticker:
  "predict_ticker short_env m cs start t =
     (Inr \<lparr>ticker = t, pred_up = None, prob_up = None, why = ''Not enough recent history yet.''\<rparr>, [])"
  by (rule predict_ticker_short) (simp add: short_env_def)

theorem insufficient_history_24_witness:
  "MIN_HISTORY_DAYS short_env = 25 \<and>
   length (table_query short_env ''AAPL'' (today short_env - LOOKBACK_DAYS short_env)) = 24 \<and>
   predict_ticker short_env (constant_classifier None) [''close'', ''ticker_AAPL'']
       (today short_env - LOOKBACK_DAYS short_env) ''AAPL'' =
     (Inr \<lparr>ticker = ''AAPL'', pred_up = None, prob_up = None,
           why = ''Not enough recent history yet.''\<rparr>, []) \<and>
   snd (lambda_handler short_env) = [] \<and>
   (\<exists>r. fst (lambda_handler short_env) = Inr r \<and>
      \<lparr>ticker = ''AAPL'', pred_up = None, prob_up = None,
       why = ''Not enough recent history yet.''\<rparr> \<in> set (predictions (body r)))"
proof -
  have a: "artifacts short_env = Inr (constant_classifier None, [''close'', ''ticker_AAPL''])"
    and m: "MIN_HISTORY_DAYS short_env = 25"
    by (simp_all add: short_env_def)
  have t: "''AAPL'' \<in> set WATCHLIST" by (simp add: WATCHLIST_def)
  note main = insufficient_history_24[OF a m t short_AAPL_items]
  have run: "\<exists>r. lambda_handler short_env = (Inr r, [])"
    unfolding lambda_handler_def a WATCHLIST_def by (simp add: Let_def short_ticker)
  then obtain r where r: "lambda_handler short_env = (Inr r, [])" ..
  with main have "\<lparr>ticker = ''AAPL'', pred_up = None, prob_up = None,
       why = ''Not enough recent history yet.''\<rparr> \<in> set (predictions (body r))" by simp
  with main r m short_AAPL_items show ?thesis by auto
qed

subsection \<open>The entries of a response\<close>

lemma onehot_nums: "replicate n (Num x) = nums (replicate n x)"
  by (simp add: nums_def)

lemma base_entries:
  "(k, v) \<in> set (base_columns bs t) \<Longrightarrow> k = ''date'' \<or> k = ''ticker'' \<or> (\<exists>xs. v = nums xs)"
  by (auto simp: base_columns_def)

lemma feature_entries: "(k, v) \<in> set (feature_assignments p bs) \<Longrightarrow> \<exists>xs. v = nums xs"
  by (auto simp: feature_assignments_def Let_def)

lemma onehot_entries: "(k, v) \<in> set (onehot_columns t n) \<Longrightarrow> \<exists>xs. v = nums xs"
  by (auto simp: onehot_columns_def onehot_nums)

lemma prepared_entries:
  "(k, v) \<in> set (prepared_columns p bs t) \<Longrightarrow> k = ''date'' \<or> k = ''ticker'' \<or> (\<exists>xs. v = nums xs)"
  using base_entries[of k v bs t] feature_entries[of k v p bs] onehot_entries[of k v t "length bs"]
  by (auto simp: prepared_columns_def)

lemma prepared_numeric:
  assumes "c \<noteq> ''date''" and "c \<noteq> ''ticker''"
  shows "numeric_column \<lparr>nrows = n, cols = prepared_columns p bs t\<rparr> c"
proof (cases "map_of (prepared_columns p bs t) c")
  case None
  then show ?thesis by (simp add: numeric_column_def column_def)
next
  case (Some col)
  then have "(c, col) \<in> set (prepared_columns p bs t)" by (rule map_of_SomeD)
  from prepared_entries[OF this] assms obtain xs where "col = nums xs" by auto
  then show ?thesis using Some by (simp add: numeric_column_def column_def astype_float_nums)
qed

lemma why_string_returns:
  assumes "\<forall>c\<in>set feature_cols. candidate c \<longrightarrow> numeric_column tb c"
  shows "\<exists>s. why_string st m feature_cols tb = Inr s"
proof (cases "feature_importances m")
  case None
  then show ?thesis by (simp add: why_string_def)
next
  case (Some ws)
  obtain sc where "collect_scores st ws tb 0 feature_cols [] = Inr sc"
    using collect_scores_total[OF assms] by blast
  then show ?thesis using Some by (simp add: why_string_def Let_def)
qed

lemma predict_ticker_returns:
  assumes cl: "\<forall>X. \<not> has_missing X \<longrightarrow> (\<exists>p. predict_proba m X = Inr p)"
    and d: "''date'' \<notin> set feature_cols" and k: "''ticker'' \<notin> set feature_cols"
  shows "\<exists>q. fst (predict_ticker e m feature_cols start t) = Inr q"
proof (cases "table_query e t start = [] \<or> int (length (table_query e t start)) < MIN_HISTORY_DAYS e")
  case True
  then show ?thesis by (simp add: predict_ticker_short)
next
  case False
  then have l: "table_query e t start \<noteq> []"
    "MIN_HISTORY_DAYS e \<le> int (length (table_query e t start))" by auto
  let ?df = "query_ticker_history (table_query e t start) t"
  let ?tb = "\<lparr>nrows = length (bars ?df),
      cols = prepared_columns (fill_pad e) (sort_key b_date (bars ?df)) (ticker_of ?df)\<rparr>"
  have ne: "bars ?df \<noteq> []" using l(1) by (simp add: bars_query_empty)
  have prep: "prep_latest_features (fill_pad e) ?df feature_cols =
      Inr (latest_row ?tb feature_cols, ?tb)"
    by (rule prep_table[OF ne])
  have "\<forall>c\<in>set feature_cols. candidate c \<longrightarrow> numeric_column ?tb c"
  proof (intro ballI impI)
    fix c
    assume "c \<in> set feature_cols"
    then have "c \<noteq> ''date''" and "c \<noteq> ''ticker''" using d k by auto
    then show "numeric_column ?tb c" by (rule prepared_numeric)
  qed
  then obtain w where w: "why_string (series_stats e) m feature_cols ?tb = Inr w"
    using why_string_returns by blast
  show ?thesis
  proof (cases "has_missing (latest_row ?tb feature_cols)")
    case True
    then show ?thesis unfolding predict_ticker_long[OF l] prep by simp
  next
    case False
    with cl obtain p where "predict_proba m (latest_row ?tb feature_cols) = Inr p" by blast
    then show ?thesis unfolding predict_ticker_long[OF l] prep using False w by simp
  qed
qed

lemma entries_tickers:
  "list_all2 (\<lambda>t q. fst (predict_ticker e m feature_cols start t) = Inr q) ts ps \<Longrightarrow>
   map ticker ps = ts"
  by (induction ts ps rule: list_all2_induct) (auto dest: predict_ticker_ticker)

lemma watchlist_step:
  "predict_ticker e m feature_cols start t = (Inr q, cs) \<Longrightarrow>
   predict_watchlist e m feature_cols start (t # ts) preds calls =
     predict_watchlist e m feature_cols start ts (preds @ [q]) (calls @ cs)"
  by simp

lemma watchlist_raises:
  "\<exists>t\<in>set ts. \<exists>err. fst (predict_ticker e m feature_cols start t) = Inl err \<Longrightarrow>
   \<exists>err cl. predict_watchlist e m feature_cols start ts preds calls = (Inl err, cl)"
proof (induction ts arbitrary: preds calls)
  case Nil
  then show ?case by simp
next
  case (Cons t ts)
  obtain r cs where p: "predict_ticker e m feature_cols start t = (r, cs)"
    by (cases "predict_ticker e m feature_cols start t")
  show ?case
  proof (cases r)
    case (Inl err)
    then show ?thesis using p by simp
  next
    case (Inr q)
    then have "\<exists>t\<in>set ts. \<exists>err. fst (predict_ticker e m feature_cols start t) = Inl err"
      using Cons.prems p by auto
    from Cons.IH[OF this, of "preds @ [q]" "calls @ cs"] show ?thesis using p Inr by simp
  qed
qed

text \<open>The handler catches no exception: when the artifacts do not load, or the
  classifier or the explanation raises for one ticker, the invocation ends with that
  exception and without a response.\<close>

lemma exception_ends_invocation:
  "artifacts e = Inl err \<Longrightarrow> lambda_handler e = (Inl err, [])"
  "artifacts e = Inr (m, feature_cols) \<Longrightarrow> t \<in> set WATCHLIST \<Longrightarrow>
   fst (predict_ticker e m feature_cols (today e - LOOKBACK_DAYS e) t) = Inl err \<Longrightarrow>
   \<exists>err'. fst (lambda_handler e) = Inl err'"
proof -
  show "artifacts e = Inl err \<Longrightarrow> lambda_handler e = (Inl err, [])"
    by (simp add: lambda_handler_def)
next
  assume a: "artifacts e = Inr (m, feature_cols)" and t: "t \<in> set WATCHLIST"
    and r: "fst (predict_ticker e m feature_cols (today e - LOOKBACK_DAYS e) t) = Inl err"
  from watchlist_raises[of WATCHLIST e m feature_cols "today e - LOOKBACK_DAYS e" "[]" "[]"] t r
  obtain err' cl where
    "predict_watchlist e m feature_cols (today e - LOOKBACK_DAYS e) WATCHLIST [] [] = (Inl err', cl)"
    by blast
  then show "\<exists>err'. fst (lambda_handler e) = Inl err'"
    by (simp add: lambda_handler_def a Let_def)
qed

text \<open>
  The loop, with the artifacts loaded. Every response of the handler has exactly one
  entry per watchlist ticker, in watchlist order, each the result of that ticker
  alone; the same holds for the loop over any list of tickers, for all fetched
  histories. A ticker with too little history, and a ticker whose latest row has a
  missing value, raise nothing: the loop appends their null entry and goes on with
  the remaining tickers, whatever the classifier does. And a response is returned
  when the classifier returns a probability for every vector without a missing value
  (its contract in the specification) and the schema names neither the date nor the
  ticker column (the two columns of the table that are not numbers; the training
  script never puts them in the schema).
\<close>

lemma one_entry_per_ticker:
  assumes a: "artifacts e = Inr (m, feature_cols)"
  shows "(\<forall>r. fst (lambda_handler e) = Inr r \<longrightarrow>
            statusCode r = 200 \<and> map ticker (predictions (body r)) = WATCHLIST \<and>
            list_all2 (\<lambda>t q. fst (predict_ticker e m feature_cols (today e - LOOKBACK_DAYS e) t) = Inr q)
              WATCHLIST (predictions (body r))) \<and>
         (\<forall>ts ps calls. predict_watchlist e m feature_cols start ts [] [] = (Inr ps, calls) \<longrightarrow>
            map ticker ps = ts \<and>
            list_all2 (\<lambda>t q. fst (predict_ticker e m feature_cols start t) = Inr q) ts ps) \<and>
         (\<forall>t ts preds calls.
            table_query e t start = [] \<or> int (length (table_query e t start)) < MIN_HISTORY_DAYS e \<longrightarrow>
            predict_watchlist e m feature_cols start (t # ts) preds calls =
              predict_watchlist e m feature_cols start ts
                (preds @ [\<lparr>ticker = t, pred_up = None, prob_up = None,
                           why = ''Not enough recent history yet.''\<rparr>]) calls) \<and>
         (\<forall>t ts preds calls X tb.
            table_query e t start \<noteq> [] \<and>
            MIN_HISTORY_DAYS e \<le> int (length (table_query e t start)) \<and>
            prep_latest_features (fill_pad e) (query_ticker_history (table_query e t start) t)
              feature_cols = Inr (X, tb) \<and> has_missing X \<longrightarrow>
            predict_watchlist e m feature_cols start (t # ts) preds calls =
              predict_watchlist e m feature_cols start ts
                (preds @ [\<lparr>ticker = t, pred_up = None, prob_up = None,
                           why = ''Missing feature values for today.''\<rparr>]) (calls @ [Prep t])) \<and>
         ((\<forall>X. \<not> has_missing X \<longrightarrow> (\<exists>p. predict_proba m X = Inr p)) \<and>
          ''date'' \<notin> set feature_cols \<and> ''ticker'' \<notin> set feature_cols \<longrightarrow>
            (\<exists>r. fst (lambda_handler e) = Inr r) \<and>
            (\<forall>ts. \<exists>ps calls. predict_watchlist e m feature_cols start ts [] [] = (Inr ps, calls)))"
proof -
  have loop: "map ticker ps = us \<and>
      list_all2 (\<lambda>t q. fst (predict_ticker e m feature_cols s t) = Inr q) us ps"
    if r: "predict_watchlist e m feature_cols s us [] [] = (Inr ps, calls)" for s us ps calls
  proof -
    from watchlist_entries[OF r]
    have l: "list_all2 (\<lambda>t q. fst (predict_ticker e m feature_cols s t) = Inr q) us ps" by simp
    from l entries_tickers[OF l] show ?thesis by blast
  qed
  have resp: "statusCode r = 200 \<and> map ticker (predictions (body r)) = WATCHLIST \<and>
      list_all2 (\<lambda>t q. fst (predict_ticker e m feature_cols (today e - LOOKBACK_DAYS e) t) = Inr q)
        WATCHLIST (predictions (body r))"
    if r: "fst (lambda_handler e) = Inr r" for r
  proof -
    from handler_predictions[OF a r] obtain cl where
      w: "predict_watchlist e m feature_cols (today e - LOOKBACK_DAYS e) WATCHLIST [] [] =
        (Inr (predictions (body r)), cl)" ..
    from handler_result[OF a w] r
    have "r = \<lparr>statusCode = 200,
           headers = [(''Content-Type'', ''application/json''), (''Access-Control-Allow-Origin'', ''*'')],
           body = \<lparr>asof = utcnow e, predictions = predictions (body r)\<rparr>\<rparr>"
      by simp
    then have "statusCode r = 200" by (metis response.select_convs(1))
    with loop[OF w] show ?thesis by simp
  qed
  have short: "predict_watchlist e m feature_cols start (t # ts) preds calls =
      predict_watchlist e m feature_cols start ts
        (preds @ [\<lparr>ticker = t, pred_up = None, prob_up = None,
                   why = ''Not enough recent history yet.''\<rparr>]) calls"
    if "table_query e t start = [] \<or> int (length (table_query e t start)) < MIN_HISTORY_DAYS e"
    for t ts preds calls
    using watchlist_step[OF predict_ticker_short[OF that]] by simp
  have missing: "predict_watchlist e m feature_cols start (t # ts) preds calls =
      predict_watchlist e m feature_cols start ts
        (preds @ [\<lparr>ticker = t, pred_up = None, prob_up = None,
                   why = ''Missing feature values for today.''\<rparr>]) (calls @ [Prep t])"
    if "table_query e t start \<noteq> [] \<and>
        MIN_HISTORY_DAYS e \<le> int (length (table_query e t start)) \<and>
        prep_latest_features (fill_pad e) (query_ticker_history (table_query e t start) t)
          feature_cols = Inr (X, tb) \<and> has_missing X" for t ts preds calls X tb
  proof -
    have "predict_ticker e m feature_cols start t =
        (Inr \<lparr>ticker = t, pred_up = None, prob_up = None,
              why = ''Missing feature values for today.''\<rparr>, [Prep t])"
      using that by (simp add: predict_ticker_long)
    from watchlist_step[OF this] show ?thesis .
  qed
  have total: "(\<exists>r. fst (lambda_handler e) = Inr r) \<and>
      (\<forall>ts. \<exists>ps calls. predict_watchlist e m feature_cols start ts [] [] = (Inr ps, calls))"
    if c: "(\<forall>X. \<not> has_missing X \<longrightarrow> (\<exists>p. predict_proba m X = Inr p)) \<and>
      ''date'' \<notin> set feature_cols \<and> ''ticker'' \<notin> set feature_cols"
  proof -
    have ret: "\<exists>ps calls. predict_watchlist e m feature_cols s us [] [] = (Inr ps, calls)" for s us
    proof -
      have "\<forall>t\<in>set us. \<exists>q. fst (predict_ticker e m feature_cols s t) = Inr q"
        using predict_ticker_returns c by blast
      from watchlist_returns[OF this] show ?thesis .
    qed
    from ret[of "today e - LOOKBACK_DAYS e" WATCHLIST] handler_result[OF a]
    have "\<exists>r. fst (lambda_handler e) = Inr r" by force
    with ret show ?thesis by blast
  qed
  show ?thesis
    apply (intro conjI allI impI)
    subgoal for r using resp[of r] by simp
    subgoal for r using resp[of r] by simp
    subgoal for r using resp[of r] by simp
    subgoal for ts ps calls using loop[of start ts ps calls] by simp
    subgoal for ts ps calls using loop[of start ts ps calls] by simp
    subgoal for t ts preds calls using short[of t ts preds calls] by simp
    subgoal for t ts preds calls X tb using missing[of t X tb ts preds calls] by simp
    subgoal using total by simp
    subgoal for ts using total by simp
    done
qed

lemma one_entry_per_ticker_example:
  "(\<exists>r. fst (lambda_handler (demo_env 20000 ''2024-10-04T00:00:00Z'')) = Inr r \<and> statusCode r = 200 \<and>
      map ticker (predictions (body r)) = [''NVDA'', ''AAPL'', ''MSFT'', ''GOOGL'', ''AMZN'', ''TSLA'']) \<and>
   ''date'' \<notin> set [''close'', ''ticker_AAPL''] \<and> ''ticker'' \<notin> set [''close'', ''ticker_AAPL'']"
proof -
  have a: "artifacts (demo_env 20000 ''2024-10-04T00:00:00Z'') =
      Inr (constant_classifier None, [''close'', ''ticker_AAPL''])"
    by (simp add: demo_env_def)
  have cl: "\<forall>X. \<not> has_missing X \<longrightarrow> (\<exists>p. predict_proba (constant_classifier None) X = Inr p)"
    by (simp add: constant_classifier_def)
  have d: "''date'' \<notin> set [''close'', ''ticker_AAPL'']" and k: "''ticker'' \<notin> set [''close'', ''ticker_AAPL'']"
    by simp_all
  from one_entry_per_ticker[OF a, of 0] cl d k
  obtain r where r: "fst (lambda_handler (demo_env 20000 ''2024-10-04T00:00:00Z'')) = Inr r"
    by blast
  with one_entry_per_ticker[OF a, of 0]
  have "statusCode r = 200 \<and> map ticker (predictions (body r)) = WATCHLIST" by blast
  with r d k show ?thesis by (auto simp: WATCHLIST_def)
qed

subsection \<open>An infinite feature\<close>

lemma daily_range_column:
  "map_of (prepared_columns p bs t) ''daily_range'' =
     Some (nums (map (\<lambda>b. fdiv (fsub (b_high b) (b_low b)) (b_open b)) bs))"
  by (simp add: prepared_columns_def base_columns_def feature_assignments_def Let_def)

lemma zero_open_bars:
  "bars (query_ticker_history zero_open_items ''NVDA'') = map to_bar zero_open_items"
proof -
  have "sorted (map b_date (map to_bar zero_open_items))"
    by (simp add: zero_open_items_def to_bar_def comp_def sorted_append)
  then have "sort_key b_date (map to_bar zero_open_items) = map to_bar zero_open_items"
    by (rule sort_key_id_if_sorted)
  then show ?thesis by (simp add: query_ticker_history_def zero_open_items_def)
qed

lemma zero_open_prep:
  "\<exists>tb. prep_latest_features False (query_ticker_history zero_open_items ''NVDA'') [''daily_range''] =
     Inr ([Num PInf], tb)"
proof -
  let ?df = "query_ticker_history zero_open_items ''NVDA''"
  have ne: "bars ?df \<noteq> []" unfolding zero_open_bars by (simp add: zero_open_items_def)
  have "sorted (map b_date (map to_bar zero_open_items))"
    by (simp add: zero_open_items_def to_bar_def comp_def sorted_append)
  then have srt: "sort_key b_date (bars ?df) = map to_bar zero_open_items"
    unfolding zero_open_bars by (rule sort_key_id_if_sorted)
  have "last (map (\<lambda>b. fdiv (fsub (b_high b) (b_low b)) (b_open b)) (map to_bar zero_open_items)) = PInf"
    by (simp add: zero_open_items_def to_bar_def one_item_def dec_def fsub_def fadd_def fdiv_def
        iszero_def signed_inf_def)
  then have "latest_row \<lparr>nrows = length (bars ?df),
        cols = prepared_columns False (sort_key b_date (bars ?df)) (ticker_of ?df)\<rparr> [''daily_range'']
      = [Num PInf]"
    unfolding srt
    by (simp add: latest_row_def column_def daily_range_column nums_def last_map zero_open_items_def)
  then show ?thesis using prep_table[OF ne, of False "[''daily_range'']"] by simp
qed

text \<open>
  C4. Every combination of per-ticker histories should give a response with one entry
  per watchlist ticker, a problem in the data of one ticker being absorbed as a null
  entry. At this input the source gives no response: every ticker has 25 stored items,
  the last item of NVDA has open 0, so its \<open>daily_range\<close> is infinite; the guard, which
  tests \<open>isna\<close> only, lets the vector through, the classifier rejects it, and the
  exception, which nothing catches, ends the invocation before any entry is returned.
  It is the defect of C1.
\<close>

theorem zero_open_ends_batch:
  "lambda_handler zero_open_env =
     (Inl ValueError, [Prep ''NVDA'', PredictProba ''NVDA'' [Num PInf]])"
proof -
  obtain tb where prep:
    "prep_latest_features False (query_ticker_history zero_open_items ''NVDA'') [''daily_range''] =
       Inr ([Num PInf], tb)"
    using zero_open_prep by blast
  have q: "table_query zero_open_env ''NVDA'' start = zero_open_items" for start
    by (simp add: zero_open_env_def)
  have l: "table_query zero_open_env ''NVDA'' start \<noteq> []"
    "MIN_HISTORY_DAYS zero_open_env \<le> int (length (table_query zero_open_env ''NVDA'' start))" for start
    by (simp_all add: zero_open_env_def zero_open_items_def)
  have f: "fill_pad zero_open_env = False" by (simp add: zero_open_env_def)
  have c: "predict_proba validating_classifier [Num PInf] = Inl ValueError"
    by (simp add: validating_classifier_def isfinite_def)
  have one: "predict_ticker zero_open_env validating_classifier [''daily_range''] start ''NVDA'' =
      (Inl ValueError, [Prep ''NVDA'', PredictProba ''NVDA'' [Num PInf]])" for start
    unfolding predict_ticker_long[OF l] q f prep
    by (simp add: has_missing_def c)
  have a: "artifacts zero_open_env = Inr (validating_classifier, [''daily_range''])"
    by (simp add: zero_open_env_def)
  show ?thesis
    unfolding lambda_handler_def a WATCHLIST_def
    by (simp add: Let_def one)
qed

subsection \<open>A constant column in binary64\<close>

text \<open>With the statistics that binary64 gives for ten values 0.3, the standard
  deviation is not 0: the column is not skipped, its z is positive and it is rendered,
  as the program does.\<close>

lemma constant_column_scored:
  "why_string rounded_stats (constant_classifier (Some [Fin 1])) [''daily_range''] constant_table =
     Inr ''Driven mainly by high intraday price range.''"
proof -
  have n: "nrows constant_table = 10" by (simp add: constant_table_def)
  have sc: "collect_scores rounded_stats [Fin 1] constant_table 0 [''daily_range''] [] =
      Inr [(Fin (2251799813685248 / 2373605415329393), ''daily_range'',
            Fin (2251799813685248 / 2373605415329393))]"
    by (simp add: score_column_cases candidate_def RAW_def constant_table_def column_def
        astype_float_nums degenerate_def isfinite_def rounded_stats_def feq_def flt_def
        Let_def weight_def fsub_def fadd_def fdiv_def fmul_def iszero_def signed_zero_def
        three_tenths_def)
  then show ?thesis
    by (simp add: why_string_def constant_classifier_def n sort_desc_def
        phrase_def fge_def flt_def friendly_def FRIENDLY_def del: collect_scores.simps)
qed

end
